theory Spec2Isabelle
  imports Main "HOL-Library.AList"
begin

section \<open>Python values\<close>

text \<open>
  The connector (\<^verbatim>\<open>aioquant/platform/binance.py\<close>) handles decoded JSON: the scalar
  values of a message or of a REST row are \<open>pyval\<close>. Keyword arguments of the
  constructor are either such data or a callable (a callback), which is \<open>pyobj\<close>.
  Floating-point numbers never appear as data here: the exchange sends prices and
  quantities as strings, and the only floats the code computes are the results of
  \<^verbatim>\<open>float(..) - float(..)\<close>, kept abstract (see \<open>pylib\<close>).
\<close>

datatype pyval = PNone | PBool bool | PInt int | PStr string

datatype pyobj = Data pyval | Callable string

text \<open>Truthiness, as tested by \<^verbatim>\<open>if x:\<close> and \<^verbatim>\<open>not x\<close>.\<close>

fun truthy :: "pyval \<Rightarrow> bool" where
  "truthy PNone = False"
| "truthy (PBool b) = b"
| "truthy (PInt i) = (i \<noteq> 0)"
| "truthy (PStr s) = (s \<noteq> [])"

fun truthy_obj :: "pyobj \<Rightarrow> bool" where
  "truthy_obj (Data v) = truthy v"
| "truthy_obj (Callable f) = True"

text \<open>\<^verbatim>\<open>str(x)\<close> on the scalar values.\<close>

fun str_nat :: "nat \<Rightarrow> string" where
  "str_nat n =
     (if n < 10 then [''0123456789'' ! n]
      else str_nat (n div 10) @ [''0123456789'' ! (n mod 10)])"

declare str_nat.simps [simp del]

definition str_int :: "int \<Rightarrow> string" where
  "str_int i = (if i < 0 then CHR ''-'' # str_nat (nat (- i)) else str_nat (nat i))"

fun py_str :: "pyval \<Rightarrow> string" where
  "py_str PNone = ''None''"
| "py_str (PBool b) = (if b then ''True'' else ''False'')"
| "py_str (PInt i) = str_int i"
| "py_str (PStr s) = s"

text \<open>\<^verbatim>\<open>sep.join(xs)\<close>.\<close>

fun join :: "string \<Rightarrow> string list \<Rightarrow> string" where
  "join sep [] = []"
| "join sep [x] = x"
| "join sep (x # y # ys) = x @ sep @ join sep (y # ys)"

text \<open>The exceptions the modelled code can raise, and the outcome of a call on a state.\<close>

datatype exn = KeyError string | AttributeError | TypeError | ValueError

datatype ('a, 's) outcome = Return 'a 's | Raise exn 's

subsection \<open>Dictionaries\<close>

text \<open>
  A \<^verbatim>\<open>dict\<close> keeps insertion order (the query string of a request depends on it), so it
  is an association list with distinct keys: \<open>d[k]\<close> is \<open>getitem\<close>, \<open>d.get(k)\<close> is
  \<open>map_of\<close> with \<open>None\<close> for a missing key, \<open>d[k] = v\<close> is \<open>AList.update\<close> (the
  value replaced in place, or the pair appended), \<open>d.update(e)\<close> is \<open>dict_update\<close>.
\<close>

type_synonym 'v dict = "(string \<times> 'v) list"

type_synonym pydict = "pyval dict"

definition getitem :: "'v dict \<Rightarrow> string \<Rightarrow> exn + 'v" where
  "getitem d k = (case map_of d k of None \<Rightarrow> Inl (KeyError k) | Some v \<Rightarrow> Inr v)"

definition get :: "pydict \<Rightarrow> string \<Rightarrow> pyval" where
  "get d k = (case map_of d k of None \<Rightarrow> PNone | Some v \<Rightarrow> v)"

definition get_obj :: "pyobj dict \<Rightarrow> string \<Rightarrow> pyobj" where
  "get_obj d k = (case map_of d k of None \<Rightarrow> Data PNone | Some v \<Rightarrow> v)"

definition dict_update :: "'v dict \<Rightarrow> 'v dict \<Rightarrow> 'v dict" where
  "dict_update d e = foldl (\<lambda>acc (k, v). AList.update k v acc) d e"

section \<open>Collaborators\<close>

text \<open>
  Library functions the code calls and whose results it only passes on are parameters:
  \<^verbatim>\<open>urllib.parse.urljoin\<close>, \<^verbatim>\<open>hmac.new(key, msg, sha256).hexdigest()\<close>, \<^verbatim>\<open>float\<close>
  (which raises on a value it cannot convert) and the subtraction of two floats.
\<close>

record 'f pylib =
  lib_urljoin :: "pyobj \<Rightarrow> string \<Rightarrow> exn + string"
  lib_hmac_sha256 :: "string \<Rightarrow> string \<Rightarrow> string"
  lib_float :: "pyval \<Rightarrow> exn + 'f"
  lib_sub :: "'f \<Rightarrow> 'f \<Rightarrow> 'f"

text \<open>
  Modelled from the spec: the constants \<^verbatim>\<open>ORDER_ACTION_*\<close>, \<^verbatim>\<open>ORDER_TYPE_*\<close> and
  \<^verbatim>\<open>ORDER_STATUS_*\<close> are imported from \<^verbatim>\<open>aioquant.order\<close>, not defined in the source
  file. The spec's data model names them (the two actions, the two order types, the
  five normalized statuses); they are distinct values.
\<close>

datatype order_action = ORDER_ACTION_BUY | ORDER_ACTION_SELL

datatype order_type = ORDER_TYPE_LIMIT | ORDER_TYPE_MARKET

datatype order_status =
    ORDER_STATUS_SUBMITTED
  | ORDER_STATUS_PARTIAL_FILLED
  | ORDER_STATUS_FILLED
  | ORDER_STATUS_CANCELED
  | ORDER_STATUS_FAILED

text \<open>
  Modelled from the spec: the class \<^verbatim>\<open>aioquant.order.Order\<close> is imported, not defined, by
  the source file. The spec's data model gives its attributes; the constructor stores
  the keyword arguments it is given. \<^verbatim>\<open>remain\<close>, \<^verbatim>\<open>status\<close> and \<^verbatim>\<open>utime\<close> are
  \<open>None\<close> while they hold the class's default, which is the case between the
  construction of an order from a streamed event and the assignments that follow it.
\<close>

record 'f order =
  o_platform :: pyobj
  o_account :: pyobj
  o_strategy :: pyobj
  o_order_id :: string
  o_client_order_id :: pyval
  o_action :: order_action
  o_order_type :: order_type
  o_symbol :: pyobj
  o_price :: pyval
  o_quantity :: pyval
  o_remain :: "'f option"
  o_status :: "order_status option"
  o_ctime :: pyval
  o_utime :: "pyval option"

text \<open>
  What the code hands to \<^verbatim>\<open>SingleTask.run\<close>: a callable (a value taken from the keyword
  arguments, or a bound method of the trade object) and its arguments, among them
  \<^verbatim>\<open>Error(msg)\<close> objects and copies of orders.
\<close>

datatype callee = Fn pyobj | Method string

datatype 'f arg = AError string | AData pyval | AOrder "'f order"

datatype 'f task = Task callee "'f arg list"

text \<open>A request as handed to \<^verbatim>\<open>AsyncHttpRequests.fetch\<close>, and its \<^verbatim>\<open>(success, error)\<close>.\<close>

record http_call =
  req_method :: string
  req_url :: string
  req_headers :: "pyobj dict"
  req_timeout :: nat
  req_verify_ssl :: bool

datatype body = JNull | JObject pydict | JArray "pydict list"

type_synonym reply = "body \<times> pyval"

text \<open>
  Modelled from the spec: the transport \<^verbatim>\<open>AsyncHttpRequests.fetch\<close>, the task helpers
  \<^verbatim>\<open>SingleTask.run\<close> and \<^verbatim>\<open>LoopRunTask.register\<close> and the clock
  \<^verbatim>\<open>tools.get_cur_timestamp_ms\<close> are imported, not defined, by the source file. The
  spec treats them as opaque collaborators: the transport takes a request and returns
  a result and an error, callbacks are started and never awaited, periodic actions are
  registered with an interval.

  So the world outside the object has two oracles (the \<open>n\<close>-th reading of the clock,
  the reply to the \<open>n\<close>-th request) and logs every effect in the order in which it
  happens: the requests issued, the tasks started, the periodic tasks registered.
  Logging (\<^verbatim>\<open>logger\<close>) is left out.
\<close>

record 'f world =
  now :: "nat \<Rightarrow> int"
  ticks :: nat
  replies :: "nat \<Rightarrow> reply"
  calls :: "http_call list"
  tasks :: "'f task list"
  loops :: "(string \<times> nat) list"

definition get_cur_timestamp_ms :: "'f world \<Rightarrow> int \<times> 'f world" where
  "get_cur_timestamp_ms w = (now w (ticks w), w\<lparr>ticks := Suc (ticks w)\<rparr>)"

definition fetch :: "http_call \<Rightarrow> 'f world \<Rightarrow> reply \<times> 'f world" where
  "fetch c w = (replies w (length (calls w)), w\<lparr>calls := calls w @ [c]\<rparr>)"

definition SingleTask_run :: "callee \<Rightarrow> 'f arg list \<Rightarrow> 'f world \<Rightarrow> 'f world" where
  "SingleTask_run f args w = w\<lparr>tasks := tasks w @ [Task f args]\<rparr>"

definition LoopRunTask_register :: "string \<Rightarrow> nat \<Rightarrow> 'f world \<Rightarrow> 'f world" where
  "LoopRunTask_register f interval w = w\<lparr>loops := loops w @ [(f, interval)]\<rparr>"

section \<open>The REST client\<close>

text \<open>
  The fields of \<^verbatim>\<open>BinanceRestAPI\<close>, its constructor, \<^verbatim>\<open>request\<close>, and the three
  operations the trade object calls in the methods below.
\<close>

record rest_api =
  api_host :: pyobj
  api_access_key :: pyobj
  api_secret_key :: pyobj

text \<open>\<^verbatim>\<open>BinanceRestAPI.__init__(self, access_key, secret_key, host)\<close>, arguments in this order.\<close>

definition BinanceRestAPI :: "pyobj \<Rightarrow> pyobj \<Rightarrow> pyobj \<Rightarrow> rest_api" where
  "BinanceRestAPI access_key secret_key host =
     \<lparr>api_host = host, api_access_key = access_key, api_secret_key = secret_key\<rparr>"

text \<open>
  The canonical query string of \<^verbatim>\<open>request\<close>: the merged parameters in insertion order,
  \<^verbatim>\<open>k=v\<close> joined by \<^verbatim>\<open>&\<close>.
\<close>

definition query_of :: "pydict \<Rightarrow> string" where
  "query_of data =
     (if data \<noteq> [] then join ''&'' (map (\<lambda>(k, v). join ''='' [k, py_str v]) data) else [])"

text \<open>
  The signing step of \<^verbatim>\<open>request\<close>: \<^verbatim>\<open>self._secret_key.encode()\<close> needs a string.
\<close>

definition sign :: "'f pylib \<Rightarrow> rest_api \<Rightarrow> bool \<Rightarrow> string \<Rightarrow> exn + string" where
  "sign L self auth query =
     (if auth \<and> query \<noteq> [] then
        (case api_secret_key self of
           Data (PStr sk) \<Rightarrow> Inr (query @ ''&signature='' @ lib_hmac_sha256 L sk query)
         | _ \<Rightarrow> Inl AttributeError)
      else Inr query)"

definition request ::
  "'f pylib \<Rightarrow> rest_api \<Rightarrow> string \<Rightarrow> string \<Rightarrow> pydict \<Rightarrow> pydict \<Rightarrow> pyobj dict \<Rightarrow> bool
     \<Rightarrow> 'f world \<Rightarrow> (reply, 'f world) outcome" where
  "request L self meth uri params body hdrs auth w =
     (case lib_urljoin L (api_host self) uri of
        Inl x \<Rightarrow> Raise x w
      | Inr u \<Rightarrow>
          (let data = dict_update (dict_update [] params) body in
           case sign L self auth (query_of data) of
             Inl x \<Rightarrow> Raise x w
           | Inr query \<Rightarrow>
               (let u' = (if query \<noteq> [] then u @ ''?'' @ query else u);
                    hdrs' = AList.update ''X-MBX-APIKEY'' (api_access_key self) hdrs
                in case fetch \<lparr>req_method = meth, req_url = u', req_headers = hdrs',
                               req_timeout = 10,
                               req_verify_ssl = False\<rparr> w of
                     (r, w') \<Rightarrow> Return r w')))"

definition BinanceRestAPI_create_order ::
  "'f pylib \<Rightarrow> rest_api \<Rightarrow> pyval \<Rightarrow> pyval \<Rightarrow> pyval \<Rightarrow> pyval \<Rightarrow> pyval
     \<Rightarrow> 'f world \<Rightarrow> (reply, 'f world) outcome" where
  "BinanceRestAPI_create_order L self action symbol price quantity client_order_id w =
     (case get_cur_timestamp_ms w of
        (ts, w1) \<Rightarrow>
          (let data = [(''symbol'', symbol), (''side'', action), (''type'', PStr ''LIMIT''),
                       (''timeInForce'', PStr ''GTC''), (''quantity'', quantity),
                       (''price'', price), (''recvWindow'', PStr ''5000''),
                       (''newOrderRespType'', PStr ''FULL''), (''timestamp'', PInt ts)];
               data' = (if truthy client_order_id
                        then AList.update ''newClientOrderId'' client_order_id data
                        else data)
           in request L self ''POST'' ''/api/v3/order'' [] data' [] True w1))"

definition BinanceRestAPI_revoke_order ::
  "'f pylib \<Rightarrow> rest_api \<Rightarrow> pyval \<Rightarrow> pyval \<Rightarrow> pyval
     \<Rightarrow> 'f world \<Rightarrow> (reply, 'f world) outcome" where
  "BinanceRestAPI_revoke_order L self symbol order_id client_order_id w =
     (case get_cur_timestamp_ms w of
        (ts, w1) \<Rightarrow>
          (let params = [(''symbol'', symbol), (''orderId'', order_id),
                         (''timestamp'', PInt ts)];
               params' = (if truthy client_order_id
                          then AList.update ''origClientOrderId'' client_order_id params
                          else params)
           in request L self ''DELETE'' ''/api/v3/order'' params' [] [] True w1))"

definition BinanceRestAPI_get_open_orders ::
  "'f pylib \<Rightarrow> rest_api \<Rightarrow> pyval \<Rightarrow> 'f world \<Rightarrow> (reply, 'f world) outcome" where
  "BinanceRestAPI_get_open_orders L self symbol w =
     (case get_cur_timestamp_ms w of
        (ts, w1) \<Rightarrow>
          request L self ''GET'' ''/api/v3/openOrders''
            [(''symbol'', symbol), (''timestamp'', PInt ts)] [] [] True w1)"

section \<open>The trade object\<close>

record 'f trade =
  self_account :: pyobj
  self_strategy :: pyobj
  self_platform :: pyobj
  self_symbol :: pyobj
  self_host :: pyobj
  self_wss :: pyobj
  self_access_key :: pyobj
  self_secret_key :: pyobj
  self_order_update_callback :: pyobj
  self_init_callback :: pyobj
  self_error_callback :: pyobj
  self_raw_symbol :: string
  self_listen_key :: pyval
  self_assets :: "pydict dict"
  self_orders :: "string \<rightharpoonup> 'f order"
  self_rest_api :: rest_api

subsection \<open>\<^verbatim>\<open>BinanceTrade.__init__\<close>\<close>

text \<open>
  The five checks of the constructor, in the source's order: each missing (or falsy)
  keyword overwrites \<^verbatim>\<open>e\<close>, so the last one found is reported. The result is the
  message of the \<^verbatim>\<open>Error\<close> object, if any.
\<close>

definition missing_param :: "pyobj dict \<Rightarrow> string option" where
  "missing_param kwargs =
     (let e = None;
          e = (if \<not> truthy_obj (get_obj kwargs ''account'')
               then Some ''param account miss'' else e);
          e = (if \<not> truthy_obj (get_obj kwargs ''strategy'')
               then Some ''param strategy miss'' else e);
          e = (if \<not> truthy_obj (get_obj kwargs ''symbol'')
               then Some ''param symbol miss'' else e);
          e = (if \<not> truthy_obj (get_obj kwargs ''access_key'')
               then Some ''param access_key miss'' else e);
          e = (if \<not> truthy_obj (get_obj kwargs ''secret_key'')
               then Some ''param secret_key miss'' else e)
      in e)"

definition default_hosts :: "pyobj dict \<Rightarrow> pyobj dict" where
  "default_hosts kwargs =
     (let kwargs = (if \<not> truthy_obj (get_obj kwargs ''host'')
                    then AList.update ''host'' (Data (PStr ''https://api.binance.com'')) kwargs
                    else kwargs);
          kwargs = (if \<not> truthy_obj (get_obj kwargs ''wss'')
                    then AList.update ''wss'' (Data (PStr ''wss://stream.binance.com:9443'')) kwargs
                    else kwargs)
      in kwargs)"

text \<open>
  The branch \<^verbatim>\<open>if e:\<close> (an \<^verbatim>\<open>Error\<close> object is truthy): both callbacks are read with
  \<^verbatim>\<open>kwargs[...]\<close> and started; nothing returns or raises on purpose here.
\<close>

definition report_missing ::
  "pyobj dict \<Rightarrow> string option \<Rightarrow> 'f world \<Rightarrow> (unit, 'f world) outcome" where
  "report_missing kwargs e w =
     (case e of
        None \<Rightarrow> Return () w
      | Some msg \<Rightarrow>
          (case getitem kwargs ''error_callback'' of
             Inl x \<Rightarrow> Raise x w
           | Inr ecb \<Rightarrow>
               (let w1 = SingleTask_run (Fn ecb) [AError msg] w in
                case getitem kwargs ''init_callback'' of
                  Inl x \<Rightarrow> Raise x w1
                | Inr icb \<Rightarrow> Return () (SingleTask_run (Fn icb) [AData (PBool False)] w1))))"

definition BinanceTrade_init :: "pyobj dict \<Rightarrow> 'f world \<Rightarrow> ('f trade, 'f world) outcome" where
  "BinanceTrade_init kwargs0 w0 =
     (let e = missing_param kwargs0; kwargs = default_hosts kwargs0 in
      case report_missing kwargs e w0 of
        Raise x w \<Rightarrow> Raise x w
      | Return _ w \<Rightarrow>
     (case getitem kwargs ''account'' of Inl x \<Rightarrow> Raise x w | Inr account \<Rightarrow>
     (case getitem kwargs ''strategy'' of Inl x \<Rightarrow> Raise x w | Inr strategy \<Rightarrow>
     (case getitem kwargs ''platform'' of Inl x \<Rightarrow> Raise x w | Inr platform \<Rightarrow>
     (case getitem kwargs ''symbol'' of Inl x \<Rightarrow> Raise x w | Inr symbol \<Rightarrow>
     (case getitem kwargs ''host'' of Inl x \<Rightarrow> Raise x w | Inr host \<Rightarrow>
     (case getitem kwargs ''wss'' of Inl x \<Rightarrow> Raise x w | Inr wss \<Rightarrow>
     (case getitem kwargs ''access_key'' of Inl x \<Rightarrow> Raise x w | Inr access_key \<Rightarrow>
     (case getitem kwargs ''secret_key'' of Inl x \<Rightarrow> Raise x w | Inr secret_key \<Rightarrow>
     (case symbol of
        Data (PStr s) \<Rightarrow>
          Return
            \<lparr>self_account = account, self_strategy = strategy, self_platform = platform,
             self_symbol = symbol, self_host = host, self_wss = wss,
             self_access_key = access_key, self_secret_key = secret_key,
             self_order_update_callback = get_obj kwargs ''order_update_callback'',
             self_init_callback = get_obj kwargs ''init_callback'',
             self_error_callback = get_obj kwargs ''error_callback'',
             self_raw_symbol = filter (\<lambda>c. c \<noteq> CHR ''/'') s,
             self_listen_key = PNone,
             self_assets = [],
             self_orders = Map.empty,
             self_rest_api = BinanceRestAPI host access_key secret_key\<rparr>
            (LoopRunTask_register ''_send_heartbeat_msg'' 10
              (SingleTask_run (Method ''_init_websocket'') []
                (LoopRunTask_register ''_reset_listen_key'' (60 * 30) w)))
      | _ \<Rightarrow> Raise AttributeError w))))))))))"

subsection \<open>\<^verbatim>\<open>BinanceTrade.create_order\<close>\<close>

text \<open>
  \<^verbatim>\<open>create_order(self, action, price, quantity, *args, **kwargs)\<close>: the positional
  extras are ignored, \<^verbatim>\<open>kwargs\<close> is the dictionary of keywords the caller gave. The
  result is the pair \<^verbatim>\<open>(order_id, error)\<close>.
\<close>

definition BinanceTrade_create_order ::
  "'f pylib \<Rightarrow> 'f trade \<Rightarrow> pyval \<Rightarrow> pyval \<Rightarrow> pyval \<Rightarrow> pydict
     \<Rightarrow> 'f world \<Rightarrow> (pyval \<times> pyval, 'f world) outcome" where
  "BinanceTrade_create_order L self action price quantity kwargs w =
     (case getitem kwargs ''client_order_id'' of
        Inl x \<Rightarrow> Raise x w
      | Inr client_order_id \<Rightarrow>
          (case BinanceRestAPI_create_order L (self_rest_api self) action
                  (PStr (self_raw_symbol self)) price quantity client_order_id w of
             Raise x w' \<Rightarrow> Raise x w'
           | Return (result, error) w' \<Rightarrow>
               if truthy error then
                 Return (PNone, error)
                   (SingleTask_run (Fn (self_error_callback self)) [AData error] w')
               else
                 (case result of
                    JObject d \<Rightarrow>
                      (case getitem d ''orderId'' of
                         Inl x \<Rightarrow> Raise x w'
                       | Inr oid \<Rightarrow> Return (PStr (py_str oid), PNone) w')
                  | _ \<Rightarrow> Raise TypeError w')))"

subsection \<open>\<^verbatim>\<open>BinanceTrade.revoke_order\<close>\<close>

text \<open>
  The three shapes of the result: \<^verbatim>\<open>(True, None)\<close> or \<^verbatim>\<open>(False, error)\<close> with no id,
  \<^verbatim>\<open>(order_id, error)\<close> with one, \<^verbatim>\<open>(success, error)\<close> (two lists) with several.
\<close>

datatype revoke_result =
    Flag bool pyval
  | Single pyval pyval
  | Partition "pyval list" "(pyval \<times> pyval) list"

text \<open>The loop of the branch \<^verbatim>\<open>len(order_ids) == 0\<close> over the open orders fetched.\<close>

fun revoke_open_orders ::
  "'f pylib \<Rightarrow> 'f trade \<Rightarrow> pydict list \<Rightarrow> 'f world \<Rightarrow> (revoke_result, 'f world) outcome" where
  "revoke_open_orders L self [] w = Return (Flag True PNone) w"
| "revoke_open_orders L self (order_info # order_infos) w =
     (case getitem order_info ''orderId'' of
        Inl x \<Rightarrow> Raise x w
      | Inr oid \<Rightarrow>
          (case BinanceRestAPI_revoke_order L (self_rest_api self)
                  (PStr (self_raw_symbol self)) oid PNone w of
             Raise x w' \<Rightarrow> Raise x w'
           | Return (_, error) w' \<Rightarrow>
               if truthy error then
                 Return (Flag False error)
                   (SingleTask_run (Fn (self_error_callback self)) [AData error] w')
               else revoke_open_orders L self order_infos w'))"

text \<open>The loop of the branch \<^verbatim>\<open>len(order_ids) > 1\<close>, with its two accumulators.\<close>

fun revoke_each ::
  "'f pylib \<Rightarrow> 'f trade \<Rightarrow> pyval list \<Rightarrow> pyval list \<Rightarrow> (pyval \<times> pyval) list
     \<Rightarrow> 'f world \<Rightarrow> (revoke_result, 'f world) outcome" where
  "revoke_each L self [] success error w = Return (Partition success error) w"
| "revoke_each L self (order_id # order_ids) success error w =
     (case BinanceRestAPI_revoke_order L (self_rest_api self)
             (PStr (self_raw_symbol self)) order_id PNone w of
        Raise x w' \<Rightarrow> Raise x w'
      | Return (_, e) w' \<Rightarrow>
          if truthy e then
            revoke_each L self order_ids success (error @ [(order_id, e)])
              (SingleTask_run (Fn (self_error_callback self)) [AData e] w')
          else revoke_each L self order_ids (success @ [order_id]) error w')"

definition BinanceTrade_revoke_order ::
  "'f pylib \<Rightarrow> 'f trade \<Rightarrow> pyval list \<Rightarrow> 'f world \<Rightarrow> (revoke_result, 'f world) outcome" where
  "BinanceTrade_revoke_order L self order_ids w =
     (if length order_ids = 0 then
        (case BinanceRestAPI_get_open_orders L (self_rest_api self)
                (PStr (self_raw_symbol self)) w of
           Raise x w' \<Rightarrow> Raise x w'
         | Return (order_infos, error) w' \<Rightarrow>
             if truthy error then
               Return (Flag False error)
                 (SingleTask_run (Fn (self_error_callback self)) [AData error] w')
             else
               (case order_infos of
                  JArray rows \<Rightarrow> revoke_open_orders L self rows w'
                | JObject d \<Rightarrow> if d = [] then Return (Flag True PNone) w' else Raise TypeError w'
                | JNull \<Rightarrow> Raise TypeError w'))
      else if length order_ids = 1 then
        (case BinanceRestAPI_revoke_order L (self_rest_api self)
                (PStr (self_raw_symbol self)) (order_ids ! 0) PNone w of
           Raise x w' \<Rightarrow> Raise x w'
         | Return (success, error) w' \<Rightarrow>
             if truthy error then
               Return (Single (order_ids ! 0) error)
                 (SingleTask_run (Fn (self_error_callback self)) [AData error] w')
             else Return (Single (order_ids ! 0) PNone) w')
      else revoke_each L self order_ids [] [] w)"

subsection \<open>\<^verbatim>\<open>BinanceTrade.connected_callback\<close>\<close>

text \<open>
  The \<^verbatim>\<open>if\<close>/\<^verbatim>\<open>elif\<close> chain on \<^verbatim>\<open>order_info["status"]\<close>; \<open>None\<close> is its \<^verbatim>\<open>else\<close>
  branch.
\<close>

definition snapshot_status :: "pyval \<Rightarrow> order_status option" where
  "snapshot_status st =
     (if st = PStr ''NEW'' then Some ORDER_STATUS_SUBMITTED
      else if st = PStr ''PARTIALLY_FILLED'' then Some ORDER_STATUS_PARTIAL_FILLED
      else if st = PStr ''FILLED'' then Some ORDER_STATUS_FILLED
      else if st = PStr ''CANCELED'' then Some ORDER_STATUS_CANCELED
      else if st = PStr ''REJECTED'' then Some ORDER_STATUS_FAILED
      else if st = PStr ''EXPIRED'' then Some ORDER_STATUS_FAILED
      else None)"

text \<open>
  The dictionary \<^verbatim>\<open>info\<close> built from a snapshot row and \<^verbatim>\<open>Order(**info)\<close>. The values
  are evaluated in the order of the dictionary display, so the first failing lookup or
  conversion is the one that raises.
\<close>

definition snapshot_order ::
  "'f pylib \<Rightarrow> 'f trade \<Rightarrow> pydict \<Rightarrow> order_status \<Rightarrow> exn + 'f order" where
  "snapshot_order L self order_info st =
     (case getitem order_info ''orderId'' of Inl x \<Rightarrow> Inl x | Inr oid \<Rightarrow>
     (case getitem order_info ''clientOrderId'' of Inl x \<Rightarrow> Inl x | Inr cid \<Rightarrow>
     (case getitem order_info ''side'' of Inl x \<Rightarrow> Inl x | Inr side \<Rightarrow>
     (case getitem order_info ''type'' of Inl x \<Rightarrow> Inl x | Inr ty \<Rightarrow>
     (case getitem order_info ''price'' of Inl x \<Rightarrow> Inl x | Inr pr \<Rightarrow>
     (case getitem order_info ''origQty'' of Inl x \<Rightarrow> Inl x | Inr qty \<Rightarrow>
     (case lib_float L qty of Inl x \<Rightarrow> Inl x | Inr q \<Rightarrow>
     (case getitem order_info ''executedQty'' of Inl x \<Rightarrow> Inl x | Inr exe \<Rightarrow>
     (case lib_float L exe of Inl x \<Rightarrow> Inl x | Inr z \<Rightarrow>
     (case getitem order_info ''time'' of Inl x \<Rightarrow> Inl x | Inr ct \<Rightarrow>
     (case getitem order_info ''updateTime'' of Inl x \<Rightarrow> Inl x | Inr ut \<Rightarrow>
        Inr \<lparr>o_platform = self_platform self,
             o_account = self_account self,
             o_strategy = self_strategy self,
             o_order_id = py_str oid,
             o_client_order_id = cid,
             o_action = (if side = PStr ''BUY'' then ORDER_ACTION_BUY else ORDER_ACTION_SELL),
             o_order_type = (if ty = PStr ''LIMIT'' then ORDER_TYPE_LIMIT else ORDER_TYPE_MARKET),
             o_symbol = self_symbol self,
             o_price = pr,
             o_quantity = qty,
             o_remain = Some (lib_sub L q z),
             o_status = Some st,
             o_ctime = ct,
             o_utime = Some ut\<rparr>)))))))))))"

text \<open>One iteration of the loop \<^verbatim>\<open>for order_info in order_infos\<close>.\<close>

definition load_order_info ::
  "'f pylib \<Rightarrow> pydict \<Rightarrow> 'f trade \<times> 'f world \<Rightarrow> (unit, 'f trade \<times> 'f world) outcome" where
  "load_order_info L order_info s =
     (case s of (self, w) \<Rightarrow>
       (case getitem order_info ''status'' of
          Inl x \<Rightarrow> Raise x (self, w)
        | Inr st \<Rightarrow>
            (case snapshot_status st of
               None \<Rightarrow>
                 Return () (self, SingleTask_run (Fn (self_error_callback self))
                                    [AData (PStr ''order status error.'')] w)
             | Some status \<Rightarrow>
                 (case snapshot_order L self order_info status of
                    Inl x \<Rightarrow> Raise x (self, w)
                  | Inr order \<Rightarrow>
                      Return ()
                        (self\<lparr>self_orders := (self_orders self)(o_order_id order \<mapsto> order)\<rparr>,
                         SingleTask_run (Fn (self_order_update_callback self))
                           [AOrder order] w)))))"

fun load_order_infos ::
  "'f pylib \<Rightarrow> pydict list \<Rightarrow> 'f trade \<times> 'f world \<Rightarrow> (unit, 'f trade \<times> 'f world) outcome" where
  "load_order_infos L [] s = Return () s"
| "load_order_infos L (order_info # order_infos) s =
     (case load_order_info L order_info s of
        Raise x s' \<Rightarrow> Raise x s'
      | Return _ s' \<Rightarrow> load_order_infos L order_infos s')"

text \<open>
  A reply that is not a list: looping over \<^verbatim>\<open>None\<close> raises, looping over a dictionary
  yields its keys, and indexing a key (a string) with \<^verbatim>\<open>"status"\<close> raises.
\<close>

definition connected_callback ::
  "'f pylib \<Rightarrow> 'f trade \<times> 'f world \<Rightarrow> (unit, 'f trade \<times> 'f world) outcome" where
  "connected_callback L s =
     (case s of (self, w) \<Rightarrow>
       (case BinanceRestAPI_get_open_orders L (self_rest_api self)
               (PStr (self_raw_symbol self)) w of
          Raise x w' \<Rightarrow> Raise x (self, w')
        | Return (order_infos, error) w' \<Rightarrow>
            if truthy error then
              Return ()
                (self,
                 SingleTask_run (Fn (self_init_callback self)) [AData (PBool False)]
                   (SingleTask_run (Fn (self_error_callback self))
                      [AError (''get open orders error: '' @ py_str error)] w'))
            else
              (case order_infos of
                 JArray rows \<Rightarrow>
                   (case load_order_infos L rows (self, w') of
                      Raise x s' \<Rightarrow> Raise x s'
                    | Return _ (self', w'') \<Rightarrow>
                        Return ()
                          (self', SingleTask_run (Fn (self_init_callback self'))
                                    [AData (PBool True), AData PNone] w''))
               | JObject d \<Rightarrow>
                   if d = [] then
                     Return ()
                       (self, SingleTask_run (Fn (self_init_callback self))
                                [AData (PBool True), AData PNone] w')
                   else Raise TypeError (self, w')
               | JNull \<Rightarrow> Raise TypeError (self, w'))))"

subsection \<open>\<^verbatim>\<open>BinanceTrade.process\<close>\<close>

text \<open>The \<^verbatim>\<open>if\<close>/\<^verbatim>\<open>elif\<close> chain on \<^verbatim>\<open>msg["X"]\<close>; \<open>None\<close> is its \<^verbatim>\<open>else\<close> branch.\<close>

definition stream_status :: "pyval \<Rightarrow> order_status option" where
  "stream_status x =
     (if x = PStr ''NEW'' then Some ORDER_STATUS_SUBMITTED
      else if x = PStr ''PARTIALLY_FILLED'' then Some ORDER_STATUS_PARTIAL_FILLED
      else if x = PStr ''FILLED'' then Some ORDER_STATUS_FILLED
      else if x = PStr ''CANCELED'' then Some ORDER_STATUS_CANCELED
      else if x = PStr ''REJECTED'' then Some ORDER_STATUS_FAILED
      else if x = PStr ''EXPIRED'' then Some ORDER_STATUS_FAILED
      else None)"

text \<open>
  \<^verbatim>\<open>Order(**info)\<close> for an order id seen for the first time: \<^verbatim>\<open>remain\<close>, \<^verbatim>\<open>status\<close>
  and \<^verbatim>\<open>utime\<close> are not passed.
\<close>

definition first_seen_order ::
  "'f trade \<Rightarrow> pydict \<Rightarrow> string \<Rightarrow> exn + 'f order" where
  "first_seen_order self msg order_id =
     (case getitem msg ''c'' of Inl x \<Rightarrow> Inl x | Inr c \<Rightarrow>
     (case getitem msg ''S'' of Inl x \<Rightarrow> Inl x | Inr side \<Rightarrow>
     (case getitem msg ''o'' of Inl x \<Rightarrow> Inl x | Inr ty \<Rightarrow>
     (case getitem msg ''p'' of Inl x \<Rightarrow> Inl x | Inr pr \<Rightarrow>
     (case getitem msg ''q'' of Inl x \<Rightarrow> Inl x | Inr qty \<Rightarrow>
     (case getitem msg ''O'' of Inl x \<Rightarrow> Inl x | Inr ct \<Rightarrow>
        Inr \<lparr>o_platform = self_platform self,
             o_account = self_account self,
             o_strategy = self_strategy self,
             o_order_id = order_id,
             o_client_order_id = c,
             o_action = (if side = PStr ''BUY'' then ORDER_ACTION_BUY else ORDER_ACTION_SELL),
             o_order_type = (if ty = PStr ''LIMIT'' then ORDER_TYPE_LIMIT else ORDER_TYPE_MARKET),
             o_symbol = self_symbol self,
             o_price = pr,
             o_quantity = qty,
             o_remain = None,
             o_status = None,
             o_ctime = ct,
             o_utime = None\<rparr>))))))"

text \<open>
  \<^verbatim>\<open>order = self._orders.get(order_id)\<close> and the branch \<^verbatim>\<open>if not order:\<close> (an order
  object is truthy): the order the event is about, and the object with that order
  stored under its id.
\<close>

definition lookup_order ::
  "'f trade \<Rightarrow> pydict \<Rightarrow> string \<Rightarrow> exn + ('f order \<times> 'f trade)" where
  "lookup_order self msg order_id =
     (case self_orders self order_id of
        Some order \<Rightarrow> Inr (order, self)
      | None \<Rightarrow>
          (case first_seen_order self msg order_id of
             Inl x \<Rightarrow> Inl x
           | Inr order \<Rightarrow>
               Inr (order, self\<lparr>self_orders := (self_orders self)(order_id \<mapsto> order)\<rparr>)))"

text \<open>
  The three assignments \<^verbatim>\<open>order.remain\<close>, \<^verbatim>\<open>order.status\<close>, \<^verbatim>\<open>order.utime\<close>. The
  order is the object stored in \<^verbatim>\<open>self._orders\<close>, so each assignment is visible there
  at once, also when a later line raises.
\<close>

definition store :: "'f trade \<Rightarrow> string \<Rightarrow> 'f order \<Rightarrow> 'f trade" where
  "store self order_id order = self\<lparr>self_orders := (self_orders self)(order_id \<mapsto> order)\<rparr>"

definition assign_fields ::
  "'f pylib \<Rightarrow> pydict \<Rightarrow> string \<Rightarrow> order_status \<Rightarrow> 'f order \<Rightarrow> 'f trade
     \<Rightarrow> ('f order, 'f trade) outcome" where
  "assign_fields L msg order_id status order self =
     (case getitem msg ''q'' of Inl x \<Rightarrow> Raise x self | Inr qty \<Rightarrow>
     (case lib_float L qty of Inl x \<Rightarrow> Raise x self | Inr q \<Rightarrow>
     (case getitem msg ''z'' of Inl x \<Rightarrow> Raise x self | Inr exe \<Rightarrow>
     (case lib_float L exe of Inl x \<Rightarrow> Raise x self | Inr z \<Rightarrow>
        (let order1 = order\<lparr>o_remain := Some (lib_sub L q z)\<rparr>;
             order2 = order1\<lparr>o_status := Some status\<rparr>
         in case getitem msg ''T'' of
              Inl x \<Rightarrow> Raise x (store self order_id order2)
            | Inr t \<Rightarrow>
                (let order3 = order2\<lparr>o_utime := Some t\<rparr>
                 in Return order3 (store self order_id order3)))))))"

text \<open>
  \<^verbatim>\<open>process\<close> up to and including the notification
  \<^verbatim>\<open>SingleTask.run(self._order_update_callback, copy.copy(order))\<close>. The result is
  \<open>None\<close> where the source returns early (or the message is no execution report), and
  the order id and mapped status where it goes on to the final test.
\<close>

definition process_notify ::
  "'f pylib \<Rightarrow> pydict \<Rightarrow> 'f trade \<times> 'f world
     \<Rightarrow> ((string \<times> order_status) option, 'f trade \<times> 'f world) outcome" where
  "process_notify L msg s =
     (case s of (self, w) \<Rightarrow>
       if get msg ''e'' = PStr ''executionReport'' then
         (case getitem msg ''s'' of
            Inl x \<Rightarrow> Raise x (self, w)
          | Inr smb \<Rightarrow>
              if smb \<noteq> PStr (self_raw_symbol self) then Return None (self, w)
              else
                (case getitem msg ''i'' of
                   Inl x \<Rightarrow> Raise x (self, w)
                 | Inr i \<Rightarrow>
                     (let order_id = py_str i in
                      case getitem msg ''X'' of
                        Inl x \<Rightarrow> Raise x (self, w)
                      | Inr st \<Rightarrow>
                          (case stream_status st of
                             None \<Rightarrow>
                               Return None
                                 (self, SingleTask_run (Fn (self_error_callback self))
                                          [AData (PStr ''order status error.'')] w)
                           | Some status \<Rightarrow>
                               (case lookup_order self msg order_id of
                                  Inl x \<Rightarrow> Raise x (self, w)
                                | Inr (order, self1) \<Rightarrow>
                                    (case assign_fields L msg order_id status order self1 of
                                       Raise x self2 \<Rightarrow> Raise x (self2, w)
                                     | Return order' self2 \<Rightarrow>
                                         Return (Some (order_id, status))
                                           (self2,
                                            SingleTask_run
                                              (Fn (self_order_update_callback self2))
                                              [AOrder order'] w)))))))
       else Return None (self, w))"

text \<open>\<^verbatim>\<open>self._orders.pop(order_id)\<close>, which raises on a missing key.\<close>

definition orders_pop :: "'f trade \<Rightarrow> string \<Rightarrow> exn + 'f trade" where
  "orders_pop self order_id =
     (case self_orders self order_id of
        None \<Rightarrow> Inl (KeyError order_id)
      | Some _ \<Rightarrow> Inr (self\<lparr>self_orders := (self_orders self)(order_id := None)\<rparr>))"

text \<open>
  The whole of \<^verbatim>\<open>process\<close>. The decorator \<^verbatim>\<open>async_method_locker\<close> lets one call run at
  a time, which is what a function on the state is.
\<close>

definition process ::
  "'f pylib \<Rightarrow> pydict \<Rightarrow> 'f trade \<times> 'f world \<Rightarrow> (unit, 'f trade \<times> 'f world) outcome" where
  "process L msg s =
     (case process_notify L msg s of
        Raise x s' \<Rightarrow> Raise x s'
      | Return None s' \<Rightarrow> Return () s'
      | Return (Some (order_id, status)) (self, w) \<Rightarrow>
          if status \<in> set [ORDER_STATUS_FAILED, ORDER_STATUS_CANCELED, ORDER_STATUS_FILLED]
          then
            (case orders_pop self order_id of
               Inl x \<Rightarrow> Raise x (self, w)
             | Inr self' \<Rightarrow> Return () (self', w))
          else Return () (self, w))"

text \<open>
  Messages are processed in arrival order; a call that raises ends the run here (what
  the transport does with the exception is outside the file).
\<close>

fun process_all ::
  "'f pylib \<Rightarrow> pydict list \<Rightarrow> 'f trade \<times> 'f world \<Rightarrow> (unit, 'f trade \<times> 'f world) outcome" where
  "process_all L [] s = Return () s"
| "process_all L (msg # msgs) s =
     (case process L msg s of
        Raise x s' \<Rightarrow> Raise x s'
      | Return _ s' \<Rightarrow> process_all L msgs s')"

text \<open>
  \<^verbatim>\<open>_init_websocket\<close> hands the transport both callbacks
  (\<^verbatim>\<open>Websocket(url, self.connected_callback, process_callback=self.process)\<close>): the
  first is called after a handshake, the second once per message. A run is a sequence of
  such calls on a state, in order; a call that raises ends it.
\<close>

datatype stream_event = Connected | Message pydict

fun run ::
  "'f pylib \<Rightarrow> stream_event list \<Rightarrow> 'f trade \<times> 'f world
     \<Rightarrow> (unit, 'f trade \<times> 'f world) outcome" where
  "run L [] s = Return () s"
| "run L (Connected # events) s =
     (case connected_callback L s of
        Raise x s' \<Rightarrow> Raise x s'
      | Return _ s' \<Rightarrow> run L events s')"
| "run L (Message msg # events) s =
     (case process L msg s of
        Raise x s' \<Rightarrow> Raise x s'
      | Return _ s' \<Rightarrow> run L events s')"

section \<open>Vocabulary of the properties\<close>

text \<open>
  The definitions of this section are not code of the connector: they name what the
  properties speak about.
\<close>

subsection \<open>Requests and replies\<close>

text \<open>
  The errors of the replies to the next \<open>n\<close> requests, and the next \<open>n\<close> readings
  of the clock.
\<close>

definition upcoming_errors :: "'f world \<Rightarrow> nat \<Rightarrow> pyval list" where
  "upcoming_errors w n =
     map (\<lambda>j. snd (replies w j)) [length (calls w) ..< length (calls w) + n]"

definition upcoming_times :: "'f world \<Rightarrow> nat \<Rightarrow> int list" where
  "upcoming_times w n = map (now w) [ticks w ..< ticks w + n]"

text \<open>
  The client of the object can sign a request on a path: \<^verbatim>\<open>urljoin\<close> accepts its
  host (giving \<open>u\<close>), and its secret key is a string \<open>sk\<close>.
\<close>

definition cancel_ready :: "'f pylib \<Rightarrow> 'f trade \<Rightarrow> string \<Rightarrow> string \<Rightarrow> bool" where
  "cancel_ready L self u sk \<longleftrightarrow>
     lib_urljoin L (api_host (self_rest_api self)) ''/api/v3/order'' = Inr u \<and>
     api_secret_key (self_rest_api self) = Data (PStr sk)"

definition open_orders_ready :: "'f pylib \<Rightarrow> 'f trade \<Rightarrow> string \<Rightarrow> string \<Rightarrow> bool" where
  "open_orders_ready L self u sk \<longleftrightarrow>
     lib_urljoin L (api_host (self_rest_api self)) ''/api/v3/openOrders'' = Inr u \<and>
     api_secret_key (self_rest_api self) = Data (PStr sk)"

text \<open>The cancel request for one order id, and the request for the open orders.\<close>

definition cancel_call ::
  "'f pylib \<Rightarrow> 'f trade \<Rightarrow> string \<Rightarrow> string \<Rightarrow> pyval \<Rightarrow> int \<Rightarrow> http_call" where
  "cancel_call L self u sk order_id ts =
     (let query = ''symbol='' @ self_raw_symbol self @ ''&orderId='' @ py_str order_id @
                  ''&timestamp='' @ str_int ts
      in \<lparr>req_method = ''DELETE'',
          req_url = u @ ''?'' @ query @ ''&signature='' @ lib_hmac_sha256 L sk query,
          req_headers = [(''X-MBX-APIKEY'', api_access_key (self_rest_api self))],
          req_timeout = 10, req_verify_ssl = False\<rparr>)"

definition open_orders_call ::
  "'f pylib \<Rightarrow> 'f trade \<Rightarrow> string \<Rightarrow> string \<Rightarrow> int \<Rightarrow> http_call" where
  "open_orders_call L self u sk ts =
     (let query = ''symbol='' @ self_raw_symbol self @ ''&timestamp='' @ str_int ts
      in \<lparr>req_method = ''GET'',
          req_url = u @ ''?'' @ query @ ''&signature='' @ lib_hmac_sha256 L sk query,
          req_headers = [(''X-MBX-APIKEY'', api_access_key (self_rest_api self))],
          req_timeout = 10, req_verify_ssl = False\<rparr>)"

text \<open>The state in which a call ends, whether it returns or raises.\<close>

definition state_of :: "('a, 's) outcome \<Rightarrow> 's" where
  "state_of r = (case r of Return _ s \<Rightarrow> s | Raise _ s \<Rightarrow> s)"

subsection \<open>The status vocabulary\<close>

text \<open>
  The mapping of the exchange's status vocabulary as the specification words it: a
  table, and no status for a value outside it.
\<close>

definition status_vocabulary :: "(string \<times> order_status) list" where
  "status_vocabulary =
     [(''NEW'', ORDER_STATUS_SUBMITTED),
      (''PARTIALLY_FILLED'', ORDER_STATUS_PARTIAL_FILLED),
      (''FILLED'', ORDER_STATUS_FILLED),
      (''CANCELED'', ORDER_STATUS_CANCELED),
      (''REJECTED'', ORDER_STATUS_FAILED),
      (''EXPIRED'', ORDER_STATUS_FAILED)]"

definition normalized_status :: "pyval \<Rightarrow> order_status option" where
  "normalized_status v = (case v of PStr s \<Rightarrow> map_of status_vocabulary s | _ \<Rightarrow> None)"

definition terminal :: "order_status \<Rightarrow> bool" where
  "terminal st \<longleftrightarrow>
     st = ORDER_STATUS_FILLED \<or> st = ORDER_STATUS_CANCELED \<or> st = ORDER_STATUS_FAILED"

definition no_terminal_orders :: "(string \<rightharpoonup> 'f order) \<Rightarrow> bool" where
  "no_terminal_orders om \<longleftrightarrow>
     (\<forall>k order st. om k = Some order \<and> o_status order = Some st \<longrightarrow> \<not> terminal st)"

subsection \<open>Execution reports\<close>

text \<open>
  What one streamed event alone says about its order: the id, the mapped status, the
  remaining quantity \<^verbatim>\<open>float(q) - float(z)\<close> and the event time.
\<close>

definition event_id :: "pydict \<Rightarrow> string" where
  "event_id msg = py_str (get msg ''i'')"

definition event_status :: "pydict \<Rightarrow> order_status option" where
  "event_status msg = stream_status (get msg ''X'')"

definition event_remain :: "'f pylib \<Rightarrow> pydict \<Rightarrow> 'f option" where
  "event_remain L msg =
     (case lib_float L (get msg ''q'') of
        Inl _ \<Rightarrow> None
      | Inr q \<Rightarrow>
          (case lib_float L (get msg ''z'') of
             Inl _ \<Rightarrow> None
           | Inr z \<Rightarrow> Some (lib_sub L q z)))"

definition event_utime :: "pydict \<Rightarrow> pyval option" where
  "event_utime msg = map_of msg ''T''"

text \<open>
  The order an event updates (the one in the mapping, or the one built from the event
  when the id is new), and that order after the update.
\<close>

definition event_base :: "'f trade \<Rightarrow> pydict \<Rightarrow> 'f order option" where
  "event_base self msg =
     (case self_orders self (event_id msg) of
        Some order \<Rightarrow> Some order
      | None \<Rightarrow>
          (case first_seen_order self msg (event_id msg) of
             Inl _ \<Rightarrow> None
           | Inr order \<Rightarrow> Some order))"

definition event_order :: "'f pylib \<Rightarrow> 'f trade \<Rightarrow> pydict \<Rightarrow> 'f order option" where
  "event_order L self msg =
     map_option
       (\<lambda>order. order\<lparr>o_remain := event_remain L msg, o_status := event_status msg,
                       o_utime := event_utime msg\<rparr>)
       (event_base self msg)"

text \<open>
  An execution report for the symbol of the object with a status of the vocabulary,
  all the fields \<^verbatim>\<open>process\<close> reads, and quantities \<^verbatim>\<open>float\<close> accepts.
\<close>

definition well_formed_report :: "'f pylib \<Rightarrow> 'f trade \<Rightarrow> pydict \<Rightarrow> bool" where
  "well_formed_report L self msg \<longleftrightarrow>
     get msg ''e'' = PStr ''executionReport'' \<and>
     map_of msg ''s'' = Some (PStr (self_raw_symbol self)) \<and>
     event_status msg \<noteq> None \<and>
     list_all (\<lambda>k. map_of msg k \<noteq> None)
       [''i'', ''X'', ''c'', ''S'', ''o'', ''p'', ''q'', ''O'', ''z'', ''T''] \<and>
     event_remain L msg \<noteq> None"

subsection \<open>Snapshot rows\<close>

text \<open>
  A row of the snapshot is skipped when its status is outside the vocabulary; the
  others are kept. \<open>row_order\<close> is the order built from a kept row, \<open>row_tasks\<close>
  the task started for a row, \<open>seed\<close> the effect of a row on the mapping.
\<close>

definition skipped :: "pydict \<Rightarrow> bool" where
  "skipped order_info \<longleftrightarrow> snapshot_status (get order_info ''status'') = None"

definition kept :: "pydict list \<Rightarrow> pydict list" where
  "kept order_infos = filter (\<lambda>order_info. \<not> skipped order_info) order_infos"

definition row_id :: "pydict \<Rightarrow> string" where
  "row_id order_info = py_str (get order_info ''orderId'')"

definition row_remain :: "'f pylib \<Rightarrow> pydict \<Rightarrow> 'f option" where
  "row_remain L order_info =
     (case lib_float L (get order_info ''origQty'') of
        Inl _ \<Rightarrow> None
      | Inr q \<Rightarrow>
          (case lib_float L (get order_info ''executedQty'') of
             Inl _ \<Rightarrow> None
           | Inr z \<Rightarrow> Some (lib_sub L q z)))"

definition row_order :: "'f pylib \<Rightarrow> 'f trade \<Rightarrow> pydict \<Rightarrow> 'f order option" where
  "row_order L self order_info =
     (case snapshot_status (get order_info ''status'') of
        None \<Rightarrow> None
      | Some st \<Rightarrow>
          (case snapshot_order L self order_info st of
             Inl _ \<Rightarrow> None
           | Inr order \<Rightarrow> Some order))"

definition row_tasks :: "'f pylib \<Rightarrow> 'f trade \<Rightarrow> pydict \<Rightarrow> 'f task list" where
  "row_tasks L self order_info =
     (case row_order L self order_info of
        Some order \<Rightarrow> [Task (Fn (self_order_update_callback self)) [AOrder order]]
      | None \<Rightarrow>
          [Task (Fn (self_error_callback self)) [AData (PStr ''order status error.'')]])"

definition seed ::
  "'f pylib \<Rightarrow> 'f trade \<Rightarrow> (string \<rightharpoonup> 'f order) \<Rightarrow> pydict \<Rightarrow> (string \<rightharpoonup> 'f order)" where
  "seed L self om order_info =
     (case row_order L self order_info of
        None \<Rightarrow> om
      | Some order \<Rightarrow> om(o_order_id order \<mapsto> order))"

text \<open>
  A row has a status and, unless it is skipped, all the fields the loop reads and
  quantities \<^verbatim>\<open>float\<close> accepts.
\<close>

definition well_formed_row :: "'f pylib \<Rightarrow> pydict \<Rightarrow> bool" where
  "well_formed_row L order_info \<longleftrightarrow>
     map_of order_info ''status'' \<noteq> None \<and>
     (skipped order_info \<or>
      list_all (\<lambda>k. map_of order_info k \<noteq> None)
        [''orderId'', ''clientOrderId'', ''side'', ''type'', ''price'', ''origQty'',
         ''executedQty'', ''time'', ''updateTime''] \<and>
      row_remain L order_info \<noteq> None)"

text \<open>
  A row of an open order: its status does not map to a terminal one. The endpoint of
  the snapshot lists open orders; \<open>open_snapshots\<close> says that of every list the
  exchange replies with.
\<close>

definition open_row :: "pydict \<Rightarrow> bool" where
  "open_row order_info \<longleftrightarrow>
     (case snapshot_status (get order_info ''status'') of
        None \<Rightarrow> True
      | Some st \<Rightarrow> \<not> terminal st)"

definition open_snapshots :: "'f world \<Rightarrow> bool" where
  "open_snapshots w \<longleftrightarrow>
     (\<forall>n rows e. replies w n = (JArray rows, e) \<longrightarrow> list_all open_row rows)"

section \<open>Concrete inputs\<close>

text \<open>
  A library, a world and a set of keyword arguments on which the properties below are
  evaluated. \<open>example_lib\<close> joins a host and a path by concatenation, writes the
  keyed hash as a term showing its key and its message, and converts integers only.
\<close>

definition example_lib :: "int pylib" where
  "example_lib =
     \<lparr>lib_urljoin = (\<lambda>h u. case h of Data (PStr s) \<Rightarrow> Inr (s @ u) | _ \<Rightarrow> Inl TypeError),
      lib_hmac_sha256 = (\<lambda>k m. ''hmac('' @ k @ '','' @ m @ '')''),
      lib_float = (\<lambda>v. case v of PInt i \<Rightarrow> Inr i | _ \<Rightarrow> Inl ValueError),
      lib_sub = (\<lambda>a b. a - b)\<rparr>"

definition example_world :: "int world" where
  "example_world =
     \<lparr>now = (\<lambda>n. 1000), ticks = 0, replies = (\<lambda>n. (JNull, PNone)),
      calls = [], tasks = [], loops = []\<rparr>"

definition example_kwargs :: "pyobj dict" where
  "example_kwargs =
     [(''account'', Data (PStr ''acct'')), (''strategy'', Data (PStr ''strat'')),
      (''platform'', Data (PStr ''binance'')), (''symbol'', Data (PStr ''BTC/USDT'')),
      (''access_key'', Data (PStr ''AK'')), (''secret_key'', Data (PStr ''SK'')),
      (''order_update_callback'', Callable ''on_order_update''),
      (''init_callback'', Callable ''on_init''),
      (''error_callback'', Callable ''on_error'')]"

text \<open>The object the constructor builds from \<open>example_kwargs\<close> (see \<open>init_example\<close>).\<close>

definition example_trade :: "int trade" where
  "example_trade =
     \<lparr>self_account = Data (PStr ''acct''), self_strategy = Data (PStr ''strat''),
      self_platform = Data (PStr ''binance''), self_symbol = Data (PStr ''BTC/USDT''),
      self_host = Data (PStr ''https://api.binance.com''),
      self_wss = Data (PStr ''wss://stream.binance.com:9443''),
      self_access_key = Data (PStr ''AK''), self_secret_key = Data (PStr ''SK''),
      self_order_update_callback = Callable ''on_order_update'',
      self_init_callback = Callable ''on_init'',
      self_error_callback = Callable ''on_error'',
      self_raw_symbol = ''BTCUSDT'',
      self_listen_key = PNone,
      self_assets = [],
      self_orders = Map.empty,
      self_rest_api = \<lparr>api_host = Data (PStr ''SK''),
                       api_access_key = Data (PStr ''https://api.binance.com''),
                       api_secret_key = Data (PStr ''AK'')\<rparr>\<rparr>"

text \<open>
  Snapshot rows: an open order, a second one partially filled, a row with the id of the
  first and other quantities, an order already filled, a row of unknown status.
\<close>

definition new_row :: pydict where
  "new_row =
     [(''status'', PStr ''NEW''), (''orderId'', PInt 1), (''clientOrderId'', PStr ''c1''),
      (''side'', PStr ''BUY''), (''type'', PStr ''LIMIT''), (''price'', PStr ''100''),
      (''origQty'', PInt 1), (''executedQty'', PInt 0), (''time'', PInt 10),
      (''updateTime'', PInt 20)]"

definition partial_row :: pydict where
  "partial_row =
     [(''status'', PStr ''PARTIALLY_FILLED''), (''orderId'', PInt 2),
      (''clientOrderId'', PStr ''c2''), (''side'', PStr ''SELL''), (''type'', PStr ''LIMIT''),
      (''price'', PStr ''100''), (''origQty'', PInt 5), (''executedQty'', PInt 2),
      (''time'', PInt 11), (''updateTime'', PInt 21)]"

definition shared_id_row :: pydict where
  "shared_id_row =
     [(''status'', PStr ''NEW''), (''orderId'', PInt 1), (''clientOrderId'', PStr ''c1''),
      (''side'', PStr ''BUY''), (''type'', PStr ''LIMIT''), (''price'', PStr ''100''),
      (''origQty'', PInt 5), (''executedQty'', PInt 2), (''time'', PInt 10),
      (''updateTime'', PInt 20)]"

definition filled_row :: pydict where
  "filled_row =
     [(''status'', PStr ''FILLED''), (''orderId'', PInt 1), (''clientOrderId'', PStr ''c1''),
      (''side'', PStr ''BUY''), (''type'', PStr ''LIMIT''), (''price'', PStr ''100''),
      (''origQty'', PInt 1), (''executedQty'', PInt 1), (''time'', PInt 10),
      (''updateTime'', PInt 20)]"

definition unknown_row :: pydict where
  "unknown_row = [(''status'', PStr ''PENDING_CANCEL''), (''orderId'', PInt 3)]"

text \<open>Execution reports for the order 2: new, filled, of unknown status, of another symbol.\<close>

definition new_report :: pydict where
  "new_report =
     [(''e'', PStr ''executionReport''), (''s'', PStr ''BTCUSDT''), (''i'', PInt 2),
      (''X'', PStr ''NEW''), (''c'', PStr ''c2''), (''S'', PStr ''BUY''),
      (''o'', PStr ''LIMIT''), (''p'', PStr ''100''), (''q'', PInt 5), (''O'', PInt 30),
      (''z'', PInt 2), (''T'', PInt 40)]"

definition fill_report :: pydict where
  "fill_report =
     [(''e'', PStr ''executionReport''), (''s'', PStr ''BTCUSDT''), (''i'', PInt 2),
      (''X'', PStr ''FILLED''), (''c'', PStr ''c2''), (''S'', PStr ''BUY''),
      (''o'', PStr ''LIMIT''), (''p'', PStr ''100''), (''q'', PInt 5), (''O'', PInt 30),
      (''z'', PInt 5), (''T'', PInt 50)]"

definition unknown_report :: pydict where
  "unknown_report =
     [(''e'', PStr ''executionReport''), (''s'', PStr ''BTCUSDT''), (''i'', PInt 2),
      (''X'', PStr ''PENDING_CANCEL'')]"

definition other_symbol_report :: pydict where
  "other_symbol_report =
     [(''e'', PStr ''executionReport''), (''s'', PStr ''ETHUSDT''), (''i'', PInt 2),
      (''X'', PStr ''NEW'')]"

text \<open>
  Worlds: the exchange answers every request with the snapshot of two open orders and
  one unknown row; with two rows of the same order id; with one open order at first and
  with the empty snapshot from then on; with the snapshot of one filled row; with two
  open orders and then refuses the first cancel; accepts the first request and refuses
  the second.
\<close>

definition snapshot_world :: "int world" where
  "snapshot_world =
     example_world\<lparr>replies := (\<lambda>n. (JArray [new_row, partial_row, unknown_row], PNone))\<rparr>"

definition shared_id_world :: "int world" where
  "shared_id_world =
     example_world\<lparr>replies := (\<lambda>n. (JArray [new_row, shared_id_row], PNone))\<rparr>"

definition reconnect_world :: "int world" where
  "reconnect_world =
     example_world
       \<lparr>replies := (\<lambda>n. if n = 0 then (JArray [new_row], PNone) else (JArray [], PNone))\<rparr>"

definition filled_snapshot_world :: "int world" where
  "filled_snapshot_world = example_world\<lparr>replies := (\<lambda>n. (JArray [filled_row], PNone))\<rparr>"

definition two_open_orders_world :: "int world" where
  "two_open_orders_world =
     example_world
       \<lparr>replies :=
          (\<lambda>n. if n = 0 then (JArray [[(''orderId'', PInt 1)], [(''orderId'', PInt 2)]], PNone)
                else if n = 1 then (JNull, PStr ''rejected'')
                else (JObject [], PNone))\<rparr>"

definition rejecting_world :: "int world" where
  "rejecting_world =
     example_world
       \<lparr>replies := (\<lambda>n. if n = 1 then (JNull, PStr ''rejected'') else (JObject [], PNone))\<rparr>"

text \<open>
  The state after \<^verbatim>\<open>connected_callback\<close> has loaded the snapshot of one filled row, and
  the state after \<^verbatim>\<open>process\<close> has then handled the report of the new order 2.
\<close>

definition seeded_state :: "int trade \<times> int world" where
  "seeded_state =
     state_of (connected_callback example_lib (example_trade, filled_snapshot_world))"

definition after_state :: "int trade \<times> int world" where
  "after_state = state_of (process example_lib new_report seeded_state)"

text \<open>
  The states after \<^verbatim>\<open>connected_callback\<close> has loaded the two rows of the same order
  id, and after a first and a second handshake in \<open>reconnect_world\<close>.
\<close>

definition shared_id_state :: "int trade \<times> int world" where
  "shared_id_state =
     state_of (connected_callback example_lib (example_trade, shared_id_world))"

definition first_handshake_state :: "int trade \<times> int world" where
  "first_handshake_state =
     state_of (connected_callback example_lib (example_trade, reconnect_world))"

definition second_handshake_state :: "int trade \<times> int world" where
  "second_handshake_state = state_of (connected_callback example_lib first_handshake_state)"

section \<open>Properties\<close>

subsection \<open>The constructor\<close>

lemma map_of_default_hosts:
  "k \<noteq> ''host'' \<Longrightarrow> k \<noteq> ''wss'' \<Longrightarrow> map_of (default_hosts kwargs) k = map_of kwargs k"
  by (simp add: default_hosts_def Let_def update_conv')

lemma getitem_default_hosts:
  "k \<noteq> ''host'' \<Longrightarrow> k \<noteq> ''wss'' \<Longrightarrow> getitem (default_hosts kwargs) k = getitem kwargs k"
  by (simp add: getitem_def map_of_default_hosts)

lemma default_hosts_host: "\<exists>h. getitem (default_hosts kwargs) ''host'' = Inr h"
  by (auto simp: default_hosts_def Let_def update_conv' getitem_def get_obj_def
      split: option.splits)

lemma default_hosts_wss: "\<exists>h. getitem (default_hosts kwargs) ''wss'' = Inr h"
  by (auto simp: default_hosts_def Let_def update_conv' getitem_def get_obj_def
      split: option.splits)

lemma missing_param_absent:
  "k \<in> set [''account'', ''strategy'', ''symbol'', ''access_key'', ''secret_key''] \<Longrightarrow>
   map_of kwargs k = None \<Longrightarrow> \<exists>msg. missing_param kwargs = Some msg"
  by (auto simp: missing_param_def get_obj_def Let_def)

lemma missing_param_present:
  "\<forall>k \<in> set [''account'', ''strategy'', ''symbol'', ''access_key'', ''secret_key''].
     truthy_obj (get_obj kwargs k) \<Longrightarrow> missing_param kwargs = None"
  by (auto simp: missing_param_def get_obj_def Let_def)

text \<open>
  With one of the five validated keywords absent and both callbacks given, the
  constructor starts the two callbacks and then goes on to the reads, where the first
  absent keyword raises.
\<close>

lemma init_missing_reports:
  assumes k: "k \<in> set [''account'', ''strategy'', ''symbol'', ''access_key'', ''secret_key'']"
    and absent: "map_of kwargs k = None"
    and ecb: "map_of kwargs ''error_callback'' = Some ecb"
    and icb: "map_of kwargs ''init_callback'' = Some icb"
  shows "\<exists>msg key. missing_param kwargs = Some msg
           \<and> key \<in> set [''account'', ''strategy'', ''platform'', ''symbol'',
                         ''access_key'', ''secret_key'']
           \<and> map_of kwargs key = None
           \<and> BinanceTrade_init kwargs w =
               Raise (KeyError key)
                 (SingleTask_run (Fn icb) [AData (PBool False)]
                    (SingleTask_run (Fn ecb) [AError msg] w))"
proof -
  from k absent obtain msg where msg: "missing_param kwargs = Some msg"
    using missing_param_absent by blast
  have cb: "getitem (default_hosts kwargs) ''error_callback'' = Inr ecb"
    "getitem (default_hosts kwargs) ''init_callback'' = Inr icb"
    using ecb icb by (simp_all add: getitem_def map_of_default_hosts)
  obtain h where h: "getitem (default_hosts kwargs) ''host'' = Inr h"
    using default_hosts_host by blast
  obtain ws where ws: "getitem (default_hosts kwargs) ''wss'' = Inr ws"
    using default_hosts_wss by blast
  let ?w = "SingleTask_run (Fn icb) [AData (PBool False)]
              (SingleTask_run (Fn ecb) [AError msg] w)"
  have unf: "BinanceTrade_init kwargs w =
     (case getitem kwargs ''account'' of Inl x \<Rightarrow> Raise x ?w | Inr account \<Rightarrow>
     (case getitem kwargs ''strategy'' of Inl x \<Rightarrow> Raise x ?w | Inr strategy \<Rightarrow>
     (case getitem kwargs ''platform'' of Inl x \<Rightarrow> Raise x ?w | Inr platform \<Rightarrow>
     (case getitem kwargs ''symbol'' of Inl x \<Rightarrow> Raise x ?w | Inr symbol \<Rightarrow>
     (case getitem kwargs ''access_key'' of Inl x \<Rightarrow> Raise x ?w | Inr access_key \<Rightarrow>
     (case getitem kwargs ''secret_key'' of Inl x \<Rightarrow> Raise x ?w | Inr secret_key \<Rightarrow>
        BinanceTrade_init kwargs w))))))"
    by (simp add: BinanceTrade_init_def msg report_missing_def cb h ws
          getitem_default_hosts Let_def split: sum.splits)
  show ?thesis
  proof (cases "map_of kwargs ''account''")
    case None
    then show ?thesis using msg unf by (auto simp: getitem_def)
  next
    case a: (Some a)
    show ?thesis
    proof (cases "map_of kwargs ''strategy''")
      case None
      then show ?thesis using msg unf a by (auto simp: getitem_def)
    next
      case b: (Some b)
      show ?thesis
      proof (cases "map_of kwargs ''platform''")
        case None
        then show ?thesis using msg unf a b by (auto simp: getitem_def)
      next
        case c: (Some c)
        show ?thesis
        proof (cases "map_of kwargs ''symbol''")
          case None
          then show ?thesis using msg unf a b c by (auto simp: getitem_def)
        next
          case d: (Some d)
          show ?thesis
          proof (cases "map_of kwargs ''access_key''")
            case None
            then show ?thesis using msg unf a b c d by (auto simp: getitem_def)
          next
            case e: (Some e)
            have "map_of kwargs ''secret_key'' = None"
              using k absent a b d e by auto
            then show ?thesis using msg unf a b c d e by (auto simp: getitem_def)
          qed
        qed
      qed
    qed
  qed
qed

text \<open>
  With the five validated keywords given and truthy, nothing is reported, and the read
  of an absent \<^verbatim>\<open>platform\<close> raises in an unchanged world.
\<close>

lemma init_platform_missing:
  assumes "\<forall>k \<in> set [''account'', ''strategy'', ''symbol'', ''access_key'', ''secret_key''].
     truthy_obj (get_obj kwargs k)" and "map_of kwargs ''platform'' = None"
  shows "BinanceTrade_init kwargs w = Raise (KeyError ''platform'') w"
proof -
  have e: "missing_param kwargs = None" using assms(1) by (rule missing_param_present)
  have a: "\<exists>v. getitem kwargs ''account'' = Inr v" "\<exists>v. getitem kwargs ''strategy'' = Inr v"
    using assms(1) by (auto simp: getitem_def get_obj_def split: option.splits)
  have p: "getitem kwargs ''platform'' = Inl (KeyError ''platform'')"
    using assms(2) by (simp add: getitem_def)
  show ?thesis using a p
    by (auto simp: BinanceTrade_init_def e report_missing_def getitem_default_hosts Let_def)
qed

lemma init_example:
  "BinanceTrade_init example_kwargs (w :: int world) =
     Return example_trade
       (w\<lparr>tasks := tasks w @ [Task (Method ''_init_websocket'') []],
          loops := loops w @ [(''_reset_listen_key'', 1800), (''_send_heartbeat_msg'', 10)]\<rparr>)"
  by (simp add: BinanceTrade_init_def example_kwargs_def example_trade_def missing_param_def
      default_hosts_def report_missing_def get_obj_def getitem_def Let_def BinanceRestAPI_def
      SingleTask_run_def LoopRunTask_register_def)

text \<open>
  Every object the constructor returns: the raw symbol is the configured symbol with
  \<^verbatim>\<open>/\<close> removed, the order mapping is empty, and the REST client holds the access key
  as its secret key, the host as its access key and the secret key as its host.
\<close>

lemma init_fields:
  assumes "BinanceTrade_init kwargs w0 = Return self w1"
  shows "(\<exists>s. self_symbol self = Data (PStr s) \<and>
              self_raw_symbol self = filter (\<lambda>c. c \<noteq> CHR ''/'') s) \<and>
         api_secret_key (self_rest_api self) = self_access_key self \<and>
         api_access_key (self_rest_api self) = self_host self \<and>
         api_host (self_rest_api self) = self_secret_key self \<and>
         self_orders self = Map.empty"
  using assms
  by (auto simp: BinanceTrade_init_def Let_def BinanceRestAPI_def
      split: outcome.splits sum.splits pyobj.splits pyval.splits)

text \<open>
  C10. The validation of the constructor does not halt construction. If one of
  \<^verbatim>\<open>account\<close>, \<^verbatim>\<open>strategy\<close>, \<^verbatim>\<open>symbol\<close>, \<^verbatim>\<open>access_key\<close>, \<^verbatim>\<open>secret_key\<close> is absent
  (and both callbacks are given), the error callback is started with the \<^verbatim>\<open>Error\<close>
  and the init callback with \<^verbatim>\<open>False\<close>, and the constructor then still reads the
  keywords and raises \<^verbatim>\<open>KeyError\<close> for an absent one. The keyword \<^verbatim>\<open>platform\<close> is read
  but never validated: with the five others given and \<^verbatim>\<open>platform\<close> absent the
  constructor raises \<^verbatim>\<open>KeyError('platform')\<close> and no callback has been started (the
  world is unchanged).
\<close>

theorem constructor_validation_does_not_halt:
  "(k \<in> set [''account'', ''strategy'', ''symbol'', ''access_key'', ''secret_key'']
      \<and> map_of kwargs k = None
      \<and> map_of kwargs ''error_callback'' = Some ecb
      \<and> map_of kwargs ''init_callback'' = Some icb
    \<longrightarrow> (\<exists>msg key. missing_param kwargs = Some msg
           \<and> key \<in> set [''account'', ''strategy'', ''platform'', ''symbol'',
                         ''access_key'', ''secret_key'']
           \<and> map_of kwargs key = None
           \<and> BinanceTrade_init kwargs w =
               Raise (KeyError key)
                 (SingleTask_run (Fn icb) [AData (PBool False)]
                    (SingleTask_run (Fn ecb) [AError msg] w))))
   \<and> ((\<forall>k \<in> set [''account'', ''strategy'', ''symbol'', ''access_key'', ''secret_key''].
          truthy_obj (get_obj kwargs' k))
      \<and> map_of kwargs' ''platform'' = None
    \<longrightarrow> BinanceTrade_init kwargs' w' = Raise (KeyError ''platform'') w')"
  using init_missing_reports [of k kwargs ecb icb w] init_platform_missing [of kwargs' w']
  by blast

theorem constructor_validation_does_not_halt_witness:
  "BinanceTrade_init (AList.delete ''account'' example_kwargs) example_world =
     Raise (KeyError ''account'')
       (example_world
          \<lparr>tasks := [Task (Fn (Callable ''on_error'')) [AError ''param account miss''],
                     Task (Fn (Callable ''on_init'')) [AData (PBool False)]]\<rparr>)
   \<and> BinanceTrade_init (AList.delete ''platform'' example_kwargs) example_world =
       Raise (KeyError ''platform'') example_world"
  using constructor_validation_does_not_halt
          [of "''account''" "AList.delete ''account'' example_kwargs"
              "Callable ''on_error''" "Callable ''on_init''" example_world
              "AList.delete ''platform'' example_kwargs" example_world]
  by (auto simp: example_kwargs_def example_world_def missing_param_def get_obj_def
      SingleTask_run_def Let_def)

subsection \<open>The REST client of a trade object\<close>

lemma query_of_2:
  "query_of [(k1, v1), (k2, v2)] = k1 @ ''='' @ py_str v1 @ ''&'' @ k2 @ ''='' @ py_str v2"
  by (simp add: query_of_def)

text \<open>
  C1. The claim is that the signature of an authenticated call made through the REST
  client of a trade object is keyed by the secret key given to the constructor, and
  that the header carries the access key. The constructor passes
  \<^verbatim>\<open>(host, access_key, secret_key)\<close> to a client whose parameters are
  \<^verbatim>\<open>(access_key, secret_key, host)\<close>. Evaluated on \<open>example_kwargs\<close> (access key
  \<^verbatim>\<open>AK\<close>, secret key \<^verbatim>\<open>SK\<close>, default host), for every keyed hash and every total
  \<^verbatim>\<open>urljoin\<close>: the request for the open orders is signed with the key \<^verbatim>\<open>AK\<close>, its
  header \<^verbatim>\<open>X-MBX-APIKEY\<close> carries the host, and its URL is joined onto \<^verbatim>\<open>SK\<close>.
\<close>

theorem rest_client_signs_with_access_key:
  "BinanceTrade_init example_kwargs w0 =
     Return example_trade
       (w0\<lparr>tasks := tasks w0 @ [Task (Method ''_init_websocket'') []],
           loops := loops w0 @ [(''_reset_listen_key'', 1800), (''_send_heartbeat_msg'', 10)]\<rparr>)
   \<and> self_access_key example_trade = Data (PStr ''AK'')
   \<and> self_secret_key example_trade = Data (PStr ''SK'')
   \<and> BinanceRestAPI_get_open_orders (L\<lparr>lib_urljoin := \<lambda>h u. Inr (U h u)\<rparr>)
        (self_rest_api example_trade) smb w =
      Return (replies w (length (calls w)))
        (w\<lparr>ticks := Suc (ticks w),
           calls := calls w @
             [\<lparr>req_method = ''GET'',
               req_url = U (Data (PStr ''SK'')) ''/api/v3/openOrders'' @ ''?'' @
                     (''symbol='' @ py_str smb @ ''&timestamp='' @ str_int (now w (ticks w))) @
                     ''&signature='' @
                     lib_hmac_sha256 L ''AK''
                       (''symbol='' @ py_str smb @ ''&timestamp='' @ str_int (now w (ticks w))),
               req_headers = [(''X-MBX-APIKEY'', Data (PStr ''https://api.binance.com''))],
               req_timeout = 10, req_verify_ssl = False\<rparr>]\<rparr>)"
proof -
  have "BinanceRestAPI_get_open_orders (L\<lparr>lib_urljoin := \<lambda>h u. Inr (U h u)\<rparr>)
          (self_rest_api example_trade) smb w =
        Return (replies w (length (calls w)))
          (w\<lparr>ticks := Suc (ticks w),
             calls := calls w @
               [\<lparr>req_method = ''GET'',
                 req_url = U (Data (PStr ''SK'')) ''/api/v3/openOrders'' @ ''?'' @
                       (''symbol='' @ py_str smb @ ''&timestamp='' @ str_int (now w (ticks w))) @
                       ''&signature='' @
                       lib_hmac_sha256 L ''AK''
                         (''symbol='' @ py_str smb @ ''&timestamp='' @ str_int (now w (ticks w))),
                 req_headers = [(''X-MBX-APIKEY'', Data (PStr ''https://api.binance.com''))],
                 req_timeout = 10, req_verify_ssl = False\<rparr>]\<rparr>)"
    by (simp add: BinanceRestAPI_get_open_orders_def get_cur_timestamp_ms_def request_def
        example_trade_def dict_update_def sign_def query_of_2 fetch_def Let_def)
  moreover have "self_access_key example_trade = Data (PStr ''AK'')"
    "self_secret_key example_trade = Data (PStr ''SK'')"
    by (simp_all add: example_trade_def)
  ultimately show ?thesis using init_example [of w0] by simp
qed

subsection \<open>Creating an order\<close>

text \<open>
  C2. The claim is that \<^verbatim>\<open>create_order\<close> completes without raising also when the
  caller gives no \<^verbatim>\<open>client_order_id\<close>. The method reads \<^verbatim>\<open>kwargs["client_order_id"]\<close>:
  called with no keyword at all it raises \<^verbatim>\<open>KeyError\<close> before any request is made,
  whatever the other arguments and the state.
\<close>

theorem create_order_without_client_order_id_raises:
  "BinanceTrade_create_order L self action price quantity [] w =
     Raise (KeyError ''client_order_id'') w"
  by (simp add: BinanceTrade_create_order_def getitem_def)

subsection \<open>Lookups and evaluation\<close>

lemma getitem_Some: "map_of d k = Some v \<Longrightarrow> getitem d k = Inr v"
  by (simp add: getitem_def)

lemma getitem_Inr: "getitem d k = Inr v \<Longrightarrow> map_of d k = Some v"
  by (simp add: getitem_def split: option.splits)

lemma get_Some: "map_of d k = Some v \<Longrightarrow> get d k = v"
  by (simp add: get_def)

lemma query_of_3:
  "query_of [(k1, v1), (k2, v2), (k3, v3)] =
     k1 @ ''='' @ py_str v1 @ ''&'' @ k2 @ ''='' @ py_str v2 @ ''&'' @ k3 @ ''='' @ py_str v3"
  by (simp add: query_of_def)

lemma str_int_1000: "str_int 1000 = ''1000''"
  by (simp add: str_int_def str_nat.simps)

lemma str_int_digits: "str_int 1 = ''1''" "str_int 2 = ''2''" "str_int 3 = ''3''"
  by (simp_all add: str_int_def str_nat.simps)

lemma upt_Suc_add: "[c ..< Suc (c + n)] = c # [Suc c ..< Suc (c + n)]"
  by (subst upt_rec) simp

subsection \<open>Cancelling orders\<close>

text \<open>What the client does for one cancel request and for the request of the open orders.\<close>

lemma rest_revoke_order:
  assumes "cancel_ready L self u sk"
  shows "BinanceRestAPI_revoke_order L (self_rest_api self) (PStr (self_raw_symbol self))
           oid PNone w =
     Return (replies w (length (calls w)))
       (w\<lparr>ticks := Suc (ticks w),
          calls := calls w @ [cancel_call L self u sk oid (now w (ticks w))]\<rparr>)"
  using assms
  by (simp add: BinanceRestAPI_revoke_order_def get_cur_timestamp_ms_def request_def
      cancel_ready_def dict_update_def sign_def query_of_3 fetch_def Let_def cancel_call_def)

lemma rest_get_open_orders:
  assumes "open_orders_ready L self u sk"
  shows "BinanceRestAPI_get_open_orders L (self_rest_api self) (PStr (self_raw_symbol self)) w =
     Return (replies w (length (calls w)))
       (w\<lparr>ticks := Suc (ticks w),
          calls := calls w @ [open_orders_call L self u sk (now w (ticks w))]\<rparr>)"
  using assms
  by (simp add: BinanceRestAPI_get_open_orders_def get_cur_timestamp_ms_def request_def
      open_orders_ready_def dict_update_def sign_def query_of_2 fetch_def Let_def
      open_orders_call_def)

lemma upcoming_errors_Suc:
  "replies w' = replies w \<Longrightarrow> length (calls w') = Suc (length (calls w)) \<Longrightarrow>
   upcoming_errors w (Suc n) = snd (replies w (length (calls w))) # upcoming_errors w' n"
  by (simp add: upcoming_errors_def upt_Suc_add del: upt_Suc)

lemma upcoming_times_Suc:
  "now w' = now w \<Longrightarrow> ticks w' = Suc (ticks w) \<Longrightarrow>
   upcoming_times w (Suc n) = now w (ticks w) # upcoming_times w' n"
  by (simp add: upcoming_times_def upt_Suc_add del: upt_Suc)

lemma upcoming_errors_2:
  "upcoming_errors w (Suc (Suc 0)) =
     [snd (replies w (length (calls w))), snd (replies w (Suc (length (calls w))))]"
  by (simp add: upcoming_errors_def)

text \<open>
  The loop over several ids, from any accumulators: every id gets its request, whatever
  the replies to the others, and the ids are split by the truth value of the error.
\<close>

lemma revoke_each_result:
  assumes "cancel_ready L self u sk"
  shows "revoke_each L self ids S E w =
     Return
       (Partition
          (S @ map fst (filter (\<lambda>(i, e). \<not> truthy e)
                          (zip ids (upcoming_errors w (length ids)))))
          (E @ filter (\<lambda>(i, e). truthy e) (zip ids (upcoming_errors w (length ids)))))
       (w\<lparr>ticks := ticks w + length ids,
          calls := calls w @ map2 (cancel_call L self u sk) ids (upcoming_times w (length ids)),
          tasks := tasks w @
            map (\<lambda>(i, e). Task (Fn (self_error_callback self)) [AData e])
              (filter (\<lambda>(i, e). truthy e) (zip ids (upcoming_errors w (length ids))))\<rparr>)"
proof (induction ids arbitrary: S E w)
  case Nil
  show ?case by (simp add: upcoming_errors_def upcoming_times_def)
next
  case (Cons i ids)
  let ?w1 = "w\<lparr>ticks := Suc (ticks w),
          calls := calls w @ [cancel_call L self u sk i (now w (ticks w))]\<rparr>"
  obtain r e where r: "replies w (length (calls w)) = (r, e)"
    by (cases "replies w (length (calls w))")
  have step: "BinanceRestAPI_revoke_order L (self_rest_api self) (PStr (self_raw_symbol self))
                i PNone w = Return (r, e) ?w1"
    using rest_revoke_order [OF assms, of i w] r by simp
  show ?case
  proof (cases "truthy e")
    case True
    let ?w2 = "SingleTask_run (Fn (self_error_callback self)) [AData e] ?w1"
    have ue: "upcoming_errors w (Suc (length ids)) = e # upcoming_errors ?w2 (length ids)"
      using upcoming_errors_Suc [of ?w2 w "length ids"] r by (simp add: SingleTask_run_def)
    have ut: "upcoming_times w (Suc (length ids)) =
                now w (ticks w) # upcoming_times ?w2 (length ids)"
      using upcoming_times_Suc [of ?w2 w "length ids"] by (simp add: SingleTask_run_def)
    have "revoke_each L self (i # ids) S E w = revoke_each L self ids S (E @ [(i, e)]) ?w2"
      using step True by simp
    then show ?thesis
      using True by (simp add: Cons.IH ue ut) (simp add: SingleTask_run_def)
  next
    case False
    have ue: "upcoming_errors w (Suc (length ids)) = e # upcoming_errors ?w1 (length ids)"
      using upcoming_errors_Suc [of ?w1 w "length ids"] r by simp
    have ut: "upcoming_times w (Suc (length ids)) =
                now w (ticks w) # upcoming_times ?w1 (length ids)"
      using upcoming_times_Suc [of ?w1 w "length ids"] by simp
    have "revoke_each L self (i # ids) S E w = revoke_each L self ids (S @ [i]) E ?w1"
      using step False by simp
    then show ?thesis
      using False by (simp add: Cons.IH ue ut)
  qed
qed

text \<open>
  The loop of the branch without ids, in general: with \<open>k\<close> the number of leading
  replies that carry no error, the cancel requests issued are those of the first
  \<open>k + 1\<close> open orders (of all of them when no cancel fails), and the result is
  \<^verbatim>\<open>(True, None)\<close> when no cancel fails and \<^verbatim>\<open>(False, error)\<close> with the first error
  otherwise.
\<close>

lemma revoke_open_orders_result:
  assumes ready: "cancel_ready L self u sk"
    and keys: "\<forall>r \<in> set rows. map_of r ''orderId'' \<noteq> None"
  shows "revoke_open_orders L self rows w =
     (let errs = upcoming_errors w (length rows);
          k = length (takeWhile (\<lambda>e. \<not> truthy e) errs);
          n = min (Suc k) (length rows)
      in Return (if k = length rows then Flag True PNone else Flag False (errs ! k))
           (w\<lparr>ticks := ticks w + n,
              calls := calls w @
                map2 (\<lambda>r. cancel_call L self u sk (get r ''orderId'')) (take n rows)
                  (upcoming_times w n),
              tasks := tasks w @
                (if k = length rows then []
                 else [Task (Fn (self_error_callback self)) [AData (errs ! k)]])\<rparr>))"
  using keys
proof (induction rows arbitrary: w)
  case Nil
  show ?case by (simp add: upcoming_errors_def upcoming_times_def)
next
  case (Cons r rows)
  then obtain oid where oid: "map_of r ''orderId'' = Some oid" by auto
  let ?w1 = "w\<lparr>ticks := Suc (ticks w),
          calls := calls w @ [cancel_call L self u sk oid (now w (ticks w))]\<rparr>"
  obtain b e where re: "replies w (length (calls w)) = (b, e)"
    by (cases "replies w (length (calls w))")
  have step: "BinanceRestAPI_revoke_order L (self_rest_api self) (PStr (self_raw_symbol self))
                oid PNone w = Return (b, e) ?w1"
    using rest_revoke_order [OF ready, of oid w] re by simp
  have ue: "upcoming_errors w (Suc (length rows)) = e # upcoming_errors ?w1 (length rows)"
    using upcoming_errors_Suc [of ?w1 w "length rows"] re by simp
  show ?case
  proof (cases "truthy e")
    case True
    have ut: "upcoming_times w (Suc 0) = [now w (ticks w)]"
      by (simp add: upcoming_times_def)
    show ?thesis
      using step True
      by (simp add: getitem_Some oid get_Some ue ut Let_def SingleTask_run_def)
  next
    case False
    have rest: "\<forall>r \<in> set rows. map_of r ''orderId'' \<noteq> None" using Cons.prems by simp
    let ?k = "length (takeWhile (\<lambda>e. \<not> truthy e) (upcoming_errors ?w1 (length rows)))"
    have ut: "upcoming_times w (Suc (min (Suc ?k) (length rows))) =
                now w (ticks w) # upcoming_times ?w1 (min (Suc ?k) (length rows))"
      using upcoming_times_Suc [of ?w1 w] by simp
    have "revoke_open_orders L self (r # rows) w = revoke_open_orders L self rows ?w1"
      using step False by (simp add: getitem_Some oid)
    then show ?thesis
      using False by (simp add: Cons.IH [OF rest] ue ut Let_def get_Some oid)
  qed
qed

text \<open>
  C3. The claim is that \<^verbatim>\<open>revoke_order()\<close> issues one cancel request for every open
  order fetched. The loop returns at the first cancel that fails. Evaluated on a world
  where the exchange reports the open orders 1 and 2 and refuses the cancel of order 1:
  the result is \<^verbatim>\<open>(False, 'rejected')\<close> and the requests issued are the fetch and the
  cancel of order 1 only; order 2 gets no request.
\<close>

theorem revoke_all_stops_at_first_failure:
  "BinanceTrade_revoke_order example_lib example_trade [] two_open_orders_world =
     Return (Flag False (PStr ''rejected''))
       (two_open_orders_world
          \<lparr>ticks := 2,
           calls :=
             [\<lparr>req_method = ''GET'',
               req_url = ''SK/api/v3/openOrders?symbol=BTCUSDT&timestamp=1000'' @
                         ''&signature=hmac(AK,symbol=BTCUSDT&timestamp=1000)'',
               req_headers = [(''X-MBX-APIKEY'', Data (PStr ''https://api.binance.com''))],
               req_timeout = 10, req_verify_ssl = False\<rparr>,
              \<lparr>req_method = ''DELETE'',
               req_url = ''SK/api/v3/order?symbol=BTCUSDT&orderId=1&timestamp=1000'' @
                         ''&signature=hmac(AK,symbol=BTCUSDT&orderId=1&timestamp=1000)'',
               req_headers = [(''X-MBX-APIKEY'', Data (PStr ''https://api.binance.com''))],
               req_timeout = 10, req_verify_ssl = False\<rparr>],
           tasks := [Task (Fn (Callable ''on_error'')) [AData (PStr ''rejected'')]]\<rparr>)"
  by (simp add: BinanceTrade_revoke_order_def BinanceRestAPI_get_open_orders_def
      BinanceRestAPI_revoke_order_def get_cur_timestamp_ms_def request_def
      example_trade_def example_lib_def example_world_def two_open_orders_world_def
      dict_update_def sign_def query_of_2 query_of_3 fetch_def Let_def getitem_def
      SingleTask_run_def str_int_1000 str_int_digits)

text \<open>
  C4. With two or more order ids (and a client that can sign the cancel request),
  \<^verbatim>\<open>revoke_order\<close> issues one cancel request per id, in order, whatever the replies;
  it returns the ids whose reply carries no error and the pairs \<^verbatim>\<open>(id, error)\<close> of
  the others, and starts the error callback once per failure. In particular, for two
  ids of which the first cancel succeeds and the second fails, the result is
  \<^verbatim>\<open>([id1], [(id2, error)])\<close>.
\<close>

theorem revoke_order_several_ids_partition:
  assumes ready: "cancel_ready L self u sk" and several: "2 \<le> length order_ids"
  shows "BinanceTrade_revoke_order L self order_ids w =
     Return
       (Partition
          (map fst (filter (\<lambda>(i, e). \<not> truthy e)
                      (zip order_ids (upcoming_errors w (length order_ids)))))
          (filter (\<lambda>(i, e). truthy e) (zip order_ids (upcoming_errors w (length order_ids)))))
       (w\<lparr>ticks := ticks w + length order_ids,
          calls := calls w @
            map2 (cancel_call L self u sk) order_ids (upcoming_times w (length order_ids)),
          tasks := tasks w @
            map (\<lambda>(i, e). Task (Fn (self_error_callback self)) [AData e])
              (filter (\<lambda>(i, e). truthy e)
                 (zip order_ids (upcoming_errors w (length order_ids))))\<rparr>)
   \<and> (order_ids = [id1, id2]
        \<and> \<not> truthy (snd (replies w (length (calls w))))
        \<and> truthy (snd (replies w (Suc (length (calls w)))))
      \<longrightarrow> (\<exists>w'. BinanceTrade_revoke_order L self order_ids w =
                  Return (Partition [id1] [(id2, snd (replies w (Suc (length (calls w)))))]) w'))"
proof -
  have eq: "BinanceTrade_revoke_order L self order_ids w = revoke_each L self order_ids [] [] w"
    using several by (cases order_ids) (auto simp: BinanceTrade_revoke_order_def)
  have main: "BinanceTrade_revoke_order L self order_ids w =
     Return
       (Partition
          (map fst (filter (\<lambda>(i, e). \<not> truthy e)
                      (zip order_ids (upcoming_errors w (length order_ids)))))
          (filter (\<lambda>(i, e). truthy e) (zip order_ids (upcoming_errors w (length order_ids)))))
       (w\<lparr>ticks := ticks w + length order_ids,
          calls := calls w @
            map2 (cancel_call L self u sk) order_ids (upcoming_times w (length order_ids)),
          tasks := tasks w @
            map (\<lambda>(i, e). Task (Fn (self_error_callback self)) [AData e])
              (filter (\<lambda>(i, e). truthy e)
                 (zip order_ids (upcoming_errors w (length order_ids))))\<rparr>)"
    using revoke_each_result [OF ready, of order_ids "[]" "[]" w] by (simp add: eq)
  have two: "order_ids = [id1, id2]
        \<and> \<not> truthy (snd (replies w (length (calls w))))
        \<and> truthy (snd (replies w (Suc (length (calls w)))))
      \<longrightarrow> (\<exists>w'. BinanceTrade_revoke_order L self order_ids w =
                  Return (Partition [id1] [(id2, snd (replies w (Suc (length (calls w)))))]) w')"
  proof
    assume a: "order_ids = [id1, id2]
        \<and> \<not> truthy (snd (replies w (length (calls w))))
        \<and> truthy (snd (replies w (Suc (length (calls w)))))"
    with main show "\<exists>w'. BinanceTrade_revoke_order L self order_ids w =
                  Return (Partition [id1] [(id2, snd (replies w (Suc (length (calls w)))))]) w'"
      by (simp add: upcoming_errors_2)
  qed
  from main two show ?thesis by (rule conjI)
qed

theorem revoke_order_several_ids_partition_witness:
  "\<exists>w'. BinanceTrade_revoke_order example_lib example_trade [PInt 1, PInt 2] rejecting_world =
            Return (Partition [PInt 1] [(PInt 2, PStr ''rejected'')]) w'
        \<and> map req_method (calls w') = [''DELETE'', ''DELETE'']
        \<and> tasks w' = [Task (Fn (Callable ''on_error'')) [AData (PStr ''rejected'')]]"
proof -
  have ready: "cancel_ready example_lib example_trade ''SK/api/v3/order'' ''AK''"
    by (simp add: cancel_ready_def example_lib_def example_trade_def)
  have several: "2 \<le> length [PInt 1, PInt 2]" by simp
  have errs: "upcoming_errors rejecting_world (Suc (Suc 0)) = [PNone, PStr ''rejected'']"
    by (simp add: upcoming_errors_2 rejecting_world_def example_world_def)
  have times: "upcoming_times rejecting_world (Suc (Suc 0)) = [1000, 1000]"
    by (simp add: upcoming_times_def rejecting_world_def example_world_def)
  have len: "length [PInt 1, PInt 2] = Suc (Suc 0)" by simp
  from revoke_order_several_ids_partition
         [OF ready several, where w = rejecting_world, unfolded len errs times]
  show ?thesis
    by (simp add: cancel_call_def example_trade_def rejecting_world_def example_world_def)
qed

subsection \<open>The status vocabulary\<close>

lemma snapshot_status_table: "snapshot_status v = normalized_status v"
  by (cases v) (simp_all add: snapshot_status_def normalized_status_def status_vocabulary_def)

lemma stream_status_table: "stream_status v = normalized_status v"
  by (cases v) (simp_all add: stream_status_def normalized_status_def status_vocabulary_def)

lemma terminal_set:
  "st \<in> set [ORDER_STATUS_FAILED, ORDER_STATUS_CANCELED, ORDER_STATUS_FILLED] \<longleftrightarrow> terminal st"
  by (auto simp: terminal_def)

text \<open>An event or a row of unknown status: the error callback, and nothing else.\<close>

lemma process_unknown_status:
  assumes "get msg ''e'' = PStr ''executionReport''"
    and "map_of msg ''s'' = Some (PStr (self_raw_symbol self))"
    and "map_of msg ''i'' = Some i" and "map_of msg ''X'' = Some x"
    and "normalized_status x = None"
  shows "process L msg (self, w) =
           Return () (self, SingleTask_run (Fn (self_error_callback self))
                              [AData (PStr ''order status error.'')] w)"
  using assms
  by (simp add: process_def process_notify_def getitem_Some stream_status_table)

lemma load_unknown_status:
  assumes "map_of order_info ''status'' = Some x" and "normalized_status x = None"
  shows "load_order_info L order_info (self, w) =
           Return () (self, SingleTask_run (Fn (self_error_callback self))
                              [AData (PStr ''order status error.'')] w)"
  using assms
  by (simp add: load_order_info_def getitem_Some snapshot_status_table)

subsection \<open>Processing an execution report\<close>

lemma store_store [simp]: "store (store self oid a) oid b = store self oid b"
  by (simp add: store_def)

lemma well_formed_report_orders [simp]:
  "well_formed_report L (self\<lparr>self_orders := om\<rparr>) msg = well_formed_report L self msg"
  by (simp add: well_formed_report_def)

lemma event_order_fields:
  "event_order L self msg = Some order \<Longrightarrow>
     o_remain order = event_remain L msg \<and> o_status order = event_status msg \<and>
     o_utime order = event_utime msg"
  by (auto simp: event_order_def)

text \<open>
  A well-formed report reaches the notification: the order of the event is stored
  under its id and a copy of it is handed to the order-update callback.
\<close>

lemma process_notify_report:
  assumes wf: "well_formed_report L self msg"
  shows "\<exists>order st. event_order L self msg = Some order \<and> event_status msg = Some st \<and>
           process_notify L msg (self, w) =
             Return (Some (event_id msg, st))
               (store self (event_id msg) order,
                SingleTask_run (Fn (self_order_update_callback self)) [AOrder order] w)"
proof -
  from wf obtain i x c sd ty p q ct z t where
    keys: "map_of msg ''i'' = Some i" "map_of msg ''X'' = Some x" "map_of msg ''c'' = Some c"
      "map_of msg ''S'' = Some sd" "map_of msg ''o'' = Some ty" "map_of msg ''p'' = Some p"
      "map_of msg ''q'' = Some q" "map_of msg ''O'' = Some ct" "map_of msg ''z'' = Some z"
      "map_of msg ''T'' = Some t"
    by (auto simp: well_formed_report_def)
  from wf obtain st where st: "event_status msg = Some st"
    by (auto simp: well_formed_report_def)
  from wf obtain rm where rm: "event_remain L msg = Some rm"
    by (auto simp: well_formed_report_def)
  from rm obtain qf zf where fl: "lib_float L q = Inr qf" "lib_float L z = Inr zf"
    "rm = lib_sub L qf zf"
    by (auto simp: event_remain_def get_Some keys split: sum.splits)
  from wf have e: "get msg ''e'' = PStr ''executionReport''"
    and s: "getitem msg ''s'' = Inr (PStr (self_raw_symbol self))"
    by (auto simp: well_formed_report_def getitem_def)
  obtain base where base: "event_base self msg = Some base"
    "lookup_order self msg (event_id msg) = Inr (base, store self (event_id msg) base)"
    by (cases "self_orders self (event_id msg)")
       (auto simp: event_base_def lookup_order_def first_seen_order_def getitem_Some keys
          store_def fun_upd_idem)
  let ?o = "base\<lparr>o_remain := Some rm, o_status := Some st, o_utime := Some t\<rparr>"
  have asg: "assign_fields L msg (event_id msg) st base (store self (event_id msg) base) =
               Return ?o (store self (event_id msg) ?o)"
    by (simp add: assign_fields_def getitem_Some keys fl Let_def store_def)
  have eo: "event_order L self msg = Some ?o"
    by (simp add: event_order_def base rm st event_utime_def keys)
  have st': "stream_status x = Some st"
    using st by (simp add: event_status_def get_Some keys)
  have "process_notify L msg (self, w) =
          Return (Some (event_id msg, st))
            (store self (event_id msg) ?o,
             SingleTask_run (Fn (self_order_update_callback self)) [AOrder ?o] w)"
    using base(2) asg
    by (simp add: process_notify_def e s getitem_Some keys st' Let_def event_id_def get_Some
        store_def)
  with eo st show ?thesis by blast
qed

text \<open>
  The whole of \<^verbatim>\<open>process\<close> on a well-formed report: the entry of the order id becomes
  the updated order, or no entry when the status is terminal.
\<close>

lemma process_report:
  assumes wf: "well_formed_report L self msg"
  shows "\<exists>order st. event_order L self msg = Some order \<and> event_status msg = Some st \<and>
           process L msg (self, w) =
             Return ()
               (self\<lparr>self_orders :=
                       (self_orders self)
                         (event_id msg := if terminal st then None else Some order)\<rparr>,
                SingleTask_run (Fn (self_order_update_callback self)) [AOrder order] w)"
proof -
  from process_notify_report [OF wf, of w] obtain order st where
    o: "event_order L self msg = Some order" "event_status msg = Some st"
    and pn: "process_notify L msg (self, w) =
             Return (Some (event_id msg, st))
               (store self (event_id msg) order,
                SingleTask_run (Fn (self_order_update_callback self)) [AOrder order] w)"
    by blast
  have "process L msg (self, w) =
             Return ()
               (self\<lparr>self_orders :=
                       (self_orders self)
                         (event_id msg := if terminal st then None else Some order)\<rparr>,
                SingleTask_run (Fn (self_order_update_callback self)) [AOrder order] w)"
    by (simp add: process_def pn terminal_set orders_pop_def store_def del: set_simps)
  with o show ?thesis by blast
qed

text \<open>
  C9. An execution report whose symbol field is not the symbol of the object (in the
  form the exchange writes it, \<^verbatim>\<open>self._raw_symbol\<close>: the configured symbol with
  \<^verbatim>\<open>/\<close> removed) leaves the object and the world as they are: no entry of the order
  mapping changes and no callback is started.
\<close>

theorem other_symbol_ignored:
  assumes "get msg ''e'' = PStr ''executionReport''" and "map_of msg ''s'' = Some smb"
    and "smb \<noteq> PStr (self_raw_symbol self)"
  shows "process L msg (self, w) = Return () (self, w)"
  using assms by (simp add: process_def process_notify_def getitem_Some)

theorem other_symbol_ignored_witness:
  "process example_lib other_symbol_report (example_trade, example_world) =
     Return () (example_trade, example_world)"
proof -
  have e: "get other_symbol_report ''e'' = PStr ''executionReport''"
    and s: "map_of other_symbol_report ''s'' = Some (PStr ''ETHUSDT'')"
    and d: "PStr ''ETHUSDT'' \<noteq> PStr (self_raw_symbol example_trade)"
    by (simp_all add: other_symbol_report_def get_def example_trade_def)
  show ?thesis by (rule other_symbol_ignored [OF e s d])
qed

text \<open>
  C6. After a sequence of well-formed execution reports (in particular reports that
  all reference one order id) has been processed, the order of the last report has the
  remaining quantity \<^verbatim>\<open>float(q) - float(z)\<close>, the mapped status and the event time of
  the last report alone; it is the order handed to the last order-update
  notification, and it is the entry of its id in the mapping unless the status is
  terminal, in which case the id has no entry.
\<close>

theorem last_report_wins:
  assumes "msgs \<noteq> []" and "\<forall>m \<in> set msgs. well_formed_report L self m"
  shows "\<exists>self' w' order st rm.
           process_all L msgs (self, w) = Return () (self', w') \<and>
           event_status (last msgs) = Some st \<and>
           event_remain L (last msgs) = Some rm \<and>
           o_remain order = Some rm \<and>
           o_status order = Some st \<and>
           o_utime order = event_utime (last msgs) \<and>
           tasks w' \<noteq> [] \<and>
           last (tasks w') = Task (Fn (self_order_update_callback self)) [AOrder order] \<and>
           self_orders self' (event_id (last msgs)) = (if terminal st then None else Some order)"
  using assms
proof (induction msgs arbitrary: self w)
  case Nil
  then show ?case by simp
next
  case (Cons m msgs)
  from Cons.prems have wf: "well_formed_report L self m" by simp
  from process_report [OF wf, of w] obtain order st where
    o: "event_order L self m = Some order" "event_status m = Some st"
    and p: "process L m (self, w) =
             Return ()
               (self\<lparr>self_orders :=
                       (self_orders self)
                         (event_id m := if terminal st then None else Some order)\<rparr>,
                SingleTask_run (Fn (self_order_update_callback self)) [AOrder order] w)"
    by blast
  from wf obtain rm where rm: "event_remain L m = Some rm"
    by (auto simp: well_formed_report_def)
  show ?case
  proof (cases "msgs = []")
    case True
    then show ?thesis
      using o p rm event_order_fields [OF o(1)]
      by (simp add: SingleTask_run_def)
  next
    case False
    let ?self1 = "self\<lparr>self_orders :=
                       (self_orders self)
                         (event_id m := if terminal st then None else Some order)\<rparr>"
    let ?w1 = "SingleTask_run (Fn (self_order_update_callback self)) [AOrder order] w"
    have "\<forall>m \<in> set msgs. well_formed_report L ?self1 m"
      using Cons.prems by simp
    from Cons.IH [OF False this, of ?w1] show ?thesis
      using False p by simp
  qed
qed

theorem last_report_wins_witness:
  "\<exists>self' w' order.
     process_all example_lib [new_report, fill_report] (example_trade, example_world) =
       Return () (self', w') \<and>
     o_remain order = Some 0 \<and>
     o_status order = Some ORDER_STATUS_FILLED \<and>
     o_utime order = Some (PInt 50) \<and>
     last (tasks w') = Task (Fn (Callable ''on_order_update'')) [AOrder order] \<and>
     self_orders self' ''2'' = None"
proof -
  have ne: "[new_report, fill_report] \<noteq> []" by simp
  have wf: "\<forall>m \<in> set [new_report, fill_report]. well_formed_report example_lib example_trade m"
    by (simp add: well_formed_report_def new_report_def fill_report_def get_def
        event_status_def stream_status_def event_remain_def example_lib_def example_trade_def)
  have ev: "event_status fill_report = Some ORDER_STATUS_FILLED"
    "event_remain example_lib fill_report = Some 0"
    "event_utime fill_report = Some (PInt 50)"
    "event_id fill_report = ''2''"
    by (simp_all add: fill_report_def get_def event_status_def stream_status_def
        event_remain_def event_utime_def event_id_def example_lib_def str_int_digits)
  from last_report_wins [OF ne wf, of example_world]
  show ?thesis
    by (auto simp: ev terminal_def example_trade_def)
qed

subsection \<open>Terminal orders\<close>

lemma lookup_order_store:
  "lookup_order self msg oid = Inr (base, self1) \<Longrightarrow> self1 = store self oid base"
  by (auto simp: lookup_order_def store_def fun_upd_idem split: option.splits sum.splits)

lemma assign_fields_Return:
  "assign_fields L msg oid st base self1 = Return order self2 \<Longrightarrow>
     self2 = store self1 oid order \<and> o_status order = Some st \<and>
     o_remain order = event_remain L msg \<and> o_utime order = event_utime msg"
  by (auto simp: assign_fields_def Let_def event_remain_def event_utime_def getitem_def get_def
      split: sum.splits option.splits)

text \<open>
  Every way in which \<^verbatim>\<open>process\<close> gets past the notification or returns before it,
  for any message: either nothing was stored (the message is no execution report, is
  for another symbol, or has an unknown status), or the order of the event was stored
  under its id and handed to the callback.
\<close>

lemma process_notify_cases:
  assumes pn: "process_notify L msg (self, w) = Return r (self1, w1)"
  shows "(r = None \<and> self1 = self \<and> replies w1 = replies w \<and>
          (get msg ''e'' \<noteq> PStr ''executionReport'' \<or>
           map_of msg ''s'' \<noteq> Some (PStr (self_raw_symbol self)) \<or>
           event_status msg = None)) \<or>
         (\<exists>order st. r = Some (event_id msg, st) \<and> event_status msg = Some st \<and>
            o_status order = Some st \<and>
            o_remain order = event_remain L msg \<and> o_utime order = event_utime msg \<and>
            self1 = store self (event_id msg) order \<and>
            w1 = SingleTask_run (Fn (self_order_update_callback self)) [AOrder order] w)"
proof (cases "get msg ''e'' = PStr ''executionReport''")
  case False
  then show ?thesis using pn by (simp add: process_notify_def)
next
  case e: True
  show ?thesis
  proof (cases "getitem msg ''s''")
    case (Inl a)
    then show ?thesis using pn e by (simp add: process_notify_def)
  next
    case s: (Inr smb)
    show ?thesis
    proof (cases "smb = PStr (self_raw_symbol self)")
      case False
      then show ?thesis using pn e s getitem_Inr [OF s] by (simp add: process_notify_def)
    next
      case smb: True
      show ?thesis
      proof (cases "getitem msg ''i''")
        case (Inl a)
        then show ?thesis using pn e s smb by (simp add: process_notify_def)
      next
        case i: (Inr i)
        have id: "event_id msg = py_str i"
          using i by (auto simp: event_id_def getitem_def get_def split: option.splits)
        show ?thesis
        proof (cases "getitem msg ''X''")
          case (Inl a)
          then show ?thesis using pn e s smb i by (simp add: process_notify_def)
        next
          case x: (Inr x)
          have es: "event_status msg = stream_status x"
            using x by (auto simp: event_status_def getitem_def get_def split: option.splits)
          show ?thesis
          proof (cases "stream_status x")
            case None
            then show ?thesis using pn e s smb i x es
              by (auto simp: process_notify_def SingleTask_run_def)
          next
            case st: (Some st)
            show ?thesis
            proof (cases "lookup_order self msg (py_str i)")
              case (Inl a)
              then show ?thesis using pn e s smb i x st by (simp add: process_notify_def)
            next
              case (Inr b)
              then obtain base selfa where
                lk: "lookup_order self msg (py_str i) = Inr (base, selfa)"
                by (cases b) simp
              show ?thesis
              proof (cases "assign_fields L msg (py_str i) st base selfa")
                case (Raise a c)
                then show ?thesis using pn e s smb i x st lk by (simp add: process_notify_def)
              next
                case asg: (Return order self2)
                from lookup_order_store [OF lk] assign_fields_Return [OF asg]
                have f: "self2 = store self (py_str i) order" "o_status order = Some st"
                  "o_remain order = event_remain L msg" "o_utime order = event_utime msg"
                  by simp_all
                have cb: "self_order_update_callback self2 = self_order_update_callback self"
                  using f(1) by (simp add: store_def)
                have "r = Some (py_str i, st) \<and> self1 = self2 \<and>
                      w1 = SingleTask_run (Fn (self_order_update_callback self2))
                             [AOrder order] w"
                  using pn e s smb i x st lk asg by (auto simp: process_notify_def)
                then show ?thesis using f cb id es st by auto
              qed
            qed
          qed
        qed
      qed
    qed
  qed
qed

lemma process_notify_obtain:
  assumes "process L msg (self, w) = Return () (self', w')"
  obtains r self1 w1 where "process_notify L msg (self, w) = Return r (self1, w1)"
proof (cases "process_notify L msg (self, w)")
  case (Return r s1)
  then show ?thesis using that [of r "fst s1" "snd s1"] by simp
next
  case (Raise x s1)
  then show ?thesis using assms by (simp add: process_def)
qed

lemma process_return_cases:
  assumes "process L msg (self, w) = Return () (self', w')"
  shows "(self' = self) \<or>
         (\<exists>order st. event_status msg = Some st \<and> o_status order = Some st \<and>
            self' = self\<lparr>self_orders :=
                       (self_orders self)
                         (event_id msg := if terminal st then None else Some order)\<rparr>)"
proof -
  from assms obtain r self1 w1 where
    pn: "process_notify L msg (self, w) = Return r (self1, w1)"
    by (rule process_notify_obtain)
  from process_notify_cases [OF pn] show ?thesis
  proof
    assume "r = None \<and> self1 = self \<and> replies w1 = replies w \<and>
          (get msg ''e'' \<noteq> PStr ''executionReport'' \<or>
           map_of msg ''s'' \<noteq> Some (PStr (self_raw_symbol self)) \<or>
           event_status msg = None)"
    then show ?thesis using assms pn by (simp add: process_def)
  next
    assume "\<exists>order st. r = Some (event_id msg, st) \<and> event_status msg = Some st \<and>
            o_status order = Some st \<and>
            o_remain order = event_remain L msg \<and> o_utime order = event_utime msg \<and>
            self1 = store self (event_id msg) order \<and>
            w1 = SingleTask_run (Fn (self_order_update_callback self)) [AOrder order] w"
    then obtain order st where
      *: "r = Some (event_id msg, st)" "event_status msg = Some st" "o_status order = Some st"
      "self1 = store self (event_id msg) order"
      by blast
    have "process L msg (self, w) =
            Return ()
              (self\<lparr>self_orders :=
                      (self_orders self)
                        (event_id msg := if terminal st then None else Some order)\<rparr>,
               w1)"
      by (simp add: process_def pn *(1,4) terminal_set orders_pop_def store_def del: set_simps)
    with assms have "self' = self\<lparr>self_orders :=
                       (self_orders self)
                         (event_id msg := if terminal st then None else Some order)\<rparr>"
      by simp
    with * show ?thesis by blast
  qed
qed

text \<open>\<^verbatim>\<open>process\<close> keeps the mapping free of orders with a terminal status.\<close>

lemma process_keeps_no_terminal:
  assumes "process L msg (self, w) = Return () (self', w')"
    and "no_terminal_orders (self_orders self)"
  shows "no_terminal_orders (self_orders self')"
  using process_return_cases [OF assms(1)]
proof
  assume "self' = self"
  then show ?thesis using assms(2) by simp
next
  assume "\<exists>order st. event_status msg = Some st \<and> o_status order = Some st \<and>
            self' = self\<lparr>self_orders :=
                       (self_orders self)
                         (event_id msg := if terminal st then None else Some order)\<rparr>"
  then obtain order st where st: "o_status order = Some st"
    and om: "self_orders self' =
               (self_orders self)(event_id msg := if terminal st then None else Some order)"
    by auto
  show ?thesis
    unfolding no_terminal_orders_def
  proof (intro allI impI)
    fix k order' st'
    assume a: "self_orders self' k = Some order' \<and> o_status order' = Some st'"
    show "\<not> terminal st'"
    proof (cases "k = event_id msg")
      case True
      with a om st show ?thesis by (cases "terminal st") auto
    next
      case False
      with a om have "self_orders self k = Some order'" by simp
      with a assms(2) show ?thesis unfolding no_terminal_orders_def by blast
    qed
  qed
qed

text \<open>
  A report with a terminal status: at the notification the order is still stored under
  its id, with the terminal status, and is the argument of the callback; the result of
  \<^verbatim>\<open>process\<close> is that state without the entry.
\<close>

lemma process_terminal_report:
  assumes ret: "process L msg (self, w) = Return () (self', w')"
    and e: "get msg ''e'' = PStr ''executionReport''"
    and s: "map_of msg ''s'' = Some (PStr (self_raw_symbol self))"
    and st: "event_status msg = Some st" and t: "terminal st"
  shows "self_orders self' (event_id msg) = None \<and>
         (\<exists>order self1.
            process_notify L msg (self, w) = Return (Some (event_id msg, st)) (self1, w') \<and>
            w' = SingleTask_run (Fn (self_order_update_callback self)) [AOrder order] w \<and>
            self_orders self1 (event_id msg) = Some order \<and>
            o_status order = Some st \<and>
            self' = self1\<lparr>self_orders := (self_orders self1)(event_id msg := None)\<rparr>)"
proof -
  from ret obtain r self1 w1 where
    pn: "process_notify L msg (self, w) = Return r (self1, w1)"
    by (rule process_notify_obtain)
  from process_notify_cases [OF pn] e s st obtain order where
    *: "r = Some (event_id msg, st)" "o_status order = Some st"
    "self1 = store self (event_id msg) order"
    "w1 = SingleTask_run (Fn (self_order_update_callback self)) [AOrder order] w"
    by auto
  have "process L msg (self, w) =
          Return () (self1\<lparr>self_orders := (self_orders self1)(event_id msg := None)\<rparr>, w1)"
    using t by (simp add: process_def pn *(1,3) terminal_set orders_pop_def store_def
        del: set_simps)
  with ret have r: "self' = self1\<lparr>self_orders := (self_orders self1)(event_id msg := None)\<rparr>"
    "w' = w1" by simp_all
  have "self_orders self1 (event_id msg) = Some order"
    using *(3) by (simp add: store_def)
  with pn * r show ?thesis by auto
qed

subsection \<open>Loading the snapshot\<close>

lemma snapshot_order_orders [simp]:
  "snapshot_order L (self\<lparr>self_orders := om\<rparr>) r st = snapshot_order L self r st"
  by (simp add: snapshot_order_def split: sum.splits)

lemma row_order_orders [simp]:
  "row_order L (self\<lparr>self_orders := om\<rparr>) r = row_order L self r"
  by (simp add: row_order_def split: option.splits)

lemma row_tasks_orders [simp]:
  "row_tasks L (self\<lparr>self_orders := om\<rparr>) r = row_tasks L self r"
  by (simp add: row_tasks_def split: option.splits)

lemma seed_orders [simp]:
  "seed L (self\<lparr>self_orders := om'\<rparr>) om r = seed L self om r"
  by (simp add: seed_def)

lemma length_row_tasks [simp]: "length (row_tasks L self r) = 1"
  by (simp add: row_tasks_def split: option.splits)

text \<open>The order built from a kept row: its id and its remaining quantity.\<close>

lemma row_order_kept:
  assumes "well_formed_row L r" and "\<not> skipped r"
  shows "\<exists>order. row_order L self r = Some order \<and> o_order_id order = row_id r \<and>
           o_remain order = row_remain L r \<and> row_remain L r \<noteq> None \<and>
           o_status order = snapshot_status (get r ''status'')"
proof -
  from assms obtain st i c sd ty p q z ct ut where
    keys: "map_of r ''status'' = Some st" "map_of r ''orderId'' = Some i"
      "map_of r ''clientOrderId'' = Some c" "map_of r ''side'' = Some sd"
      "map_of r ''type'' = Some ty" "map_of r ''price'' = Some p"
      "map_of r ''origQty'' = Some q" "map_of r ''executedQty'' = Some z"
      "map_of r ''time'' = Some ct" "map_of r ''updateTime'' = Some ut"
    by (auto simp: well_formed_row_def)
  from assms obtain rm where rm: "row_remain L r = Some rm"
    by (auto simp: well_formed_row_def)
  then obtain qf zf where fl: "lib_float L q = Inr qf" "lib_float L z = Inr zf"
    "rm = lib_sub L qf zf"
    by (auto simp: row_remain_def get_Some keys split: sum.splits)
  from assms(2) obtain s where s: "snapshot_status st = Some s"
    by (auto simp: skipped_def get_Some keys)
  show ?thesis
    by (simp add: row_order_def snapshot_order_def get_Some getitem_Some keys s fl rm row_id_def)
qed

lemma row_order_skipped: "skipped r \<Longrightarrow> row_order L self r = None"
  by (simp add: row_order_def skipped_def)

lemma load_order_info_wf:
  assumes "well_formed_row L r"
  shows "load_order_info L r (self, w) =
     Return () (self\<lparr>self_orders := seed L self (self_orders self) r\<rparr>,
                w\<lparr>tasks := tasks w @ row_tasks L self r\<rparr>)"
proof -
  from assms obtain st where st: "map_of r ''status'' = Some st"
    by (auto simp: well_formed_row_def)
  show ?thesis
  proof (cases "skipped r")
    case True
    then have "snapshot_status st = None" by (simp add: skipped_def get_Some st)
    then show ?thesis
      using row_order_skipped [OF True, of L self]
      by (simp add: load_order_info_def getitem_Some st seed_def row_tasks_def SingleTask_run_def)
  next
    case False
    then obtain s where s: "snapshot_status st = Some s"
      by (auto simp: skipped_def get_Some st)
    from row_order_kept [OF assms False, of self] obtain order where
      o: "row_order L self r = Some order" by blast
    then have so: "snapshot_order L self r s = Inr order"
      by (auto simp: row_order_def get_Some st s split: sum.splits)
    show ?thesis
      by (simp add: load_order_info_def getitem_Some st s so seed_def o row_tasks_def
          SingleTask_run_def)
  qed
qed

text \<open>The loop over well-formed rows: induction on the rows, from any state.\<close>

lemma load_order_infos_wf:
  assumes "\<forall>r \<in> set rows. well_formed_row L r"
  shows "load_order_infos L rows (self, w) =
     Return () (self\<lparr>self_orders := foldl (seed L self) (self_orders self) rows\<rparr>,
                w\<lparr>tasks := tasks w @ concat (map (row_tasks L self) rows)\<rparr>)"
  using assms
proof (induction rows arbitrary: self w)
  case Nil
  show ?case by simp
next
  case (Cons r rows)
  then have wf: "well_formed_row L r" and rest: "\<forall>r \<in> set rows. well_formed_row L r"
    by simp_all
  show ?case
    by (simp add: load_order_info_wf [OF wf] Cons.IH [OF rest])
qed

lemma dom_seed:
  assumes "\<forall>r \<in> set rows. well_formed_row L r"
  shows "dom (foldl (seed L self) om rows) = dom om \<union> row_id ` set (kept rows)"
  using assms
proof (induction rows arbitrary: om)
  case Nil
  show ?case by (simp add: kept_def)
next
  case (Cons r rows)
  then have wf: "well_formed_row L r" and rest: "\<forall>r \<in> set rows. well_formed_row L r"
    by simp_all
  show ?case
  proof (cases "skipped r")
    case True
    then show ?thesis
      using Cons.IH [OF rest] by (simp add: seed_def row_order_skipped kept_def)
  next
    case False
    from row_order_kept [OF wf False, of self] obtain order where
      "row_order L self r = Some order" "o_order_id order = row_id r" by blast
    then show ?thesis
      using Cons.IH [OF rest] False by (auto simp: seed_def kept_def)
  qed
qed

lemma seed_other:
  assumes "\<forall>r \<in> set rows. well_formed_row L r" and "k \<notin> row_id ` set (kept rows)"
  shows "foldl (seed L self) om rows k = om k"
  using assms
proof (induction rows arbitrary: om)
  case Nil
  show ?case by simp
next
  case (Cons r rows)
  then have wf: "well_formed_row L r" and rest: "\<forall>r \<in> set rows. well_formed_row L r"
    and k: "k \<notin> row_id ` set (kept rows)"
    by (auto simp: kept_def)
  show ?case
  proof (cases "skipped r")
    case True
    then show ?thesis
      using Cons.IH [OF rest k] by (simp add: seed_def row_order_skipped)
  next
    case False
    from row_order_kept [OF wf False, of self] obtain order where
      o: "row_order L self r = Some order" "o_order_id order = row_id r" by blast
    have "k \<noteq> row_id r" using Cons.prems(2) False by (auto simp: kept_def)
    then show ?thesis
      using Cons.IH [OF rest k] o by (simp add: seed_def)
  qed
qed

lemma seed_lookup:
  assumes "\<forall>r \<in> set rows. well_formed_row L r" and "distinct (map row_id (kept rows))"
    and "r \<in> set (kept rows)"
  shows "foldl (seed L self) om rows (row_id r) = row_order L self r"
  using assms
proof (induction rows arbitrary: om)
  case Nil
  then show ?case by (simp add: kept_def)
next
  case (Cons x rows)
  then have wf: "well_formed_row L x" and rest: "\<forall>r \<in> set rows. well_formed_row L r"
    by simp_all
  show ?case
  proof (cases "skipped x")
    case True
    then have "kept (x # rows) = kept rows" by (simp add: kept_def)
    then show ?thesis
      using Cons.IH [OF rest] Cons.prems True by (simp add: seed_def row_order_skipped)
  next
    case False
    then have kp: "kept (x # rows) = x # kept rows" by (simp add: kept_def)
    from row_order_kept [OF wf False, of self] obtain order where
      o: "row_order L self x = Some order" "o_order_id order = row_id x" by blast
    from Cons.prems(2) kp have d: "row_id x \<notin> row_id ` set (kept rows)"
      "distinct (map row_id (kept rows))" by simp_all
    show ?thesis
    proof (cases "r \<in> set (kept rows)")
      case True
      then show ?thesis using Cons.IH [OF rest d(2) True] by simp
    next
      case False
      with Cons.prems(3) kp have rx: "r = x" by simp
      have "seed L self om x = om(row_id x \<mapsto> order)"
        using o by (simp add: seed_def)
      then show ?thesis
        using seed_other [OF rest d(1), of self "om(row_id x \<mapsto> order)"] o rx by simp
    qed
  qed
qed

lemma connected_callback_loads:
  assumes ready: "open_orders_ready L self u sk"
    and reply: "replies w (length (calls w)) = (JArray rows, err)" "\<not> truthy err"
    and wf: "\<forall>r \<in> set rows. well_formed_row L r"
  shows "connected_callback L (self, w) =
     Return ()
       (self\<lparr>self_orders := foldl (seed L self) (self_orders self) rows\<rparr>,
        w\<lparr>ticks := Suc (ticks w),
          calls := calls w @ [open_orders_call L self u sk (now w (ticks w))],
          tasks := tasks w @ concat (map (row_tasks L self) rows) @
                   [Task (Fn (self_init_callback self)) [AData (PBool True), AData PNone]]\<rparr>)"
  by (simp add: connected_callback_def rest_get_open_orders [OF ready] reply
      load_order_infos_wf [OF wf] SingleTask_run_def)

text \<open>The rows of the concrete snapshots, and the request for them.\<close>

lemma open_orders_ready_orders [simp]:
  "open_orders_ready L (self\<lparr>self_orders := om\<rparr>) u sk = open_orders_ready L self u sk"
  by (simp add: open_orders_ready_def)

lemma example_rows:
  "row_id new_row = ''1''" "row_id partial_row = ''2''" "row_id shared_id_row = ''1''"
  "row_remain example_lib new_row = Some 1" "row_remain example_lib partial_row = Some 3"
  "row_remain example_lib shared_id_row = Some 3"
  "\<not> skipped new_row" "\<not> skipped partial_row" "\<not> skipped shared_id_row"
  "skipped unknown_row"
  by (simp_all add: row_id_def row_remain_def skipped_def snapshot_status_def new_row_def
      partial_row_def shared_id_row_def unknown_row_def get_def example_lib_def str_int_digits)

lemma example_rows_wf:
  "well_formed_row example_lib new_row" "well_formed_row example_lib partial_row"
  "well_formed_row example_lib shared_id_row" "well_formed_row example_lib unknown_row"
  using example_rows
  by (simp_all add: well_formed_row_def)
     (simp_all add: new_row_def partial_row_def shared_id_row_def unknown_row_def)

lemma example_ready:
  "open_orders_ready example_lib example_trade ''SK/api/v3/openOrders'' ''AK''"
  by (simp add: open_orders_ready_def example_lib_def example_trade_def)

text \<open>
  C8, as the claim states it. The mapping need not hold one entry per row kept:
  \<^item> after a first handshake has loaded one open order, a second handshake whose
    snapshot is the empty list returns, starts the init callback with
    \<^verbatim>\<open>(True, None)\<close>, and leaves the entry of the first snapshot in the mapping;
  \<^item> a snapshot with two rows of the same order id leaves one entry, and its
    remaining quantity is that of the second row, not that of the first.
\<close>

theorem snapshot_entries_not_one_per_row:
  "connected_callback example_lib (example_trade, reconnect_world) =
     Return () first_handshake_state
   \<and> dom (self_orders (fst first_handshake_state)) = {''1''}
   \<and> replies (snd first_handshake_state) (length (calls (snd first_handshake_state))) =
       (JArray [], PNone)
   \<and> connected_callback example_lib first_handshake_state = Return () second_handshake_state
   \<and> last (tasks (snd second_handshake_state)) =
       Task (Fn (Callable ''on_init'')) [AData (PBool True), AData PNone]
   \<and> dom (self_orders (fst second_handshake_state)) = {''1''}
   \<and> connected_callback example_lib (example_trade, shared_id_world) =
       Return () shared_id_state
   \<and> kept [new_row, shared_id_row] = [new_row, shared_id_row]
   \<and> card (dom (self_orders (fst shared_id_state))) = 1
   \<and> row_id new_row = ''1'' \<and> row_remain example_lib new_row = Some 1
   \<and> (\<exists>order. self_orders (fst shared_id_state) ''1'' = Some order \<and>
               o_remain order = Some 3)"
proof -
  let ?u = "''SK/api/v3/openOrders''" and ?sk = "''AK''"
  let ?init = "Task (Fn (Callable ''on_init'')) [AData (PBool True), AData PNone]"
  have empty: "self_orders example_trade = Map.empty"
    and cb: "self_init_callback example_trade = Callable ''on_init''"
    by (simp_all add: example_trade_def)
  let ?om1 = "foldl (seed example_lib example_trade) (self_orders example_trade) [new_row]"
  let ?w1 = "reconnect_world
        \<lparr>ticks := Suc (ticks reconnect_world),
         calls := calls reconnect_world @
                  [open_orders_call example_lib example_trade ?u ?sk
                     (now reconnect_world (ticks reconnect_world))],
         tasks := tasks reconnect_world @
                  concat (map (row_tasks example_lib example_trade) [new_row]) @
                  [Task (Fn (self_init_callback example_trade))
                     [AData (PBool True), AData PNone]]\<rparr>"
  have r1: "replies reconnect_world (length (calls reconnect_world)) = (JArray [new_row], PNone)"
    "\<not> truthy PNone"
    by (simp_all add: reconnect_world_def example_world_def)
  have wf1: "\<forall>r \<in> set [new_row]. well_formed_row example_lib r"
    using example_rows_wf by simp
  have c1: "connected_callback example_lib (example_trade, reconnect_world) =
              Return () (example_trade\<lparr>self_orders := ?om1\<rparr>, ?w1)"
    by (rule connected_callback_loads [OF example_ready r1 wf1])
  then have s1: "first_handshake_state = (example_trade\<lparr>self_orders := ?om1\<rparr>, ?w1)"
    by (simp add: first_handshake_state_def state_of_def)
  have d1: "dom ?om1 = {''1''}"
    using dom_seed [OF wf1, of example_trade "self_orders example_trade"] example_rows
    by (simp add: empty kept_def)
  let ?self1 = "example_trade\<lparr>self_orders := ?om1\<rparr>"
  let ?w2 = "?w1
        \<lparr>ticks := Suc (ticks ?w1),
         calls := calls ?w1 @
                  [open_orders_call example_lib ?self1 ?u ?sk (now ?w1 (ticks ?w1))],
         tasks := tasks ?w1 @
                  concat (map (row_tasks example_lib ?self1) []) @
                  [Task (Fn (self_init_callback ?self1)) [AData (PBool True), AData PNone]]\<rparr>"
  have r2: "replies ?w1 (length (calls ?w1)) = (JArray [], PNone)"
    by (simp add: reconnect_world_def example_world_def)
  have ready2: "open_orders_ready example_lib ?self1 ?u ?sk"
    using example_ready by simp
  have wf2: "\<forall>r \<in> set []. well_formed_row example_lib r" by simp
  have c2: "connected_callback example_lib (?self1, ?w1) =
              Return () (?self1\<lparr>self_orders := foldl (seed example_lib ?self1)
                                                 (self_orders ?self1) []\<rparr>, ?w2)"
    by (rule connected_callback_loads [OF ready2 r2 r1(2) wf2])
  then have s2: "second_handshake_state = (?self1, ?w2)"
    by (simp add: second_handshake_state_def s1 state_of_def)
  have t2: "last (tasks ?w2) = ?init" by (simp add: cb)
  let ?rows = "[new_row, shared_id_row]"
  let ?om3 = "foldl (seed example_lib example_trade) (self_orders example_trade) ?rows"
  let ?w3 = "shared_id_world
        \<lparr>ticks := Suc (ticks shared_id_world),
         calls := calls shared_id_world @
                  [open_orders_call example_lib example_trade ?u ?sk
                     (now shared_id_world (ticks shared_id_world))],
         tasks := tasks shared_id_world @
                  concat (map (row_tasks example_lib example_trade) ?rows) @
                  [Task (Fn (self_init_callback example_trade))
                     [AData (PBool True), AData PNone]]\<rparr>"
  have r3: "replies shared_id_world (length (calls shared_id_world)) = (JArray ?rows, PNone)"
    by (simp add: shared_id_world_def example_world_def)
  have wf3: "\<forall>r \<in> set ?rows. well_formed_row example_lib r"
    using example_rows_wf by simp
  have c3: "connected_callback example_lib (example_trade, shared_id_world) =
              Return () (example_trade\<lparr>self_orders := ?om3\<rparr>, ?w3)"
    by (rule connected_callback_loads [OF example_ready r3 r1(2) wf3])
  then have s3: "shared_id_state = (example_trade\<lparr>self_orders := ?om3\<rparr>, ?w3)"
    by (simp add: shared_id_state_def state_of_def)
  have kp: "kept ?rows = ?rows" using example_rows by (simp add: kept_def)
  have d3: "dom ?om3 = {''1''}"
    using dom_seed [OF wf3, of example_trade "self_orders example_trade"] example_rows
    by (simp add: empty kp)
  from row_order_kept [OF example_rows_wf(3) example_rows(9), of example_trade]
  obtain order where
    o: "row_order example_lib example_trade shared_id_row = Some order"
       "o_order_id order = ''1''" "o_remain order = Some 3"
    using example_rows by auto
  have "?om3 ''1'' = Some order" using o by (simp add: seed_def)
  with o have e3: "\<exists>order. ?om3 ''1'' = Some order \<and> o_remain order = Some 3" by blast
  have a1: "connected_callback example_lib (example_trade, reconnect_world) =
     Return () first_handshake_state" using c1 by (simp add: s1)
  have a2: "dom (self_orders (fst first_handshake_state)) = {''1''}" using d1 by (simp add: s1)
  have a3: "replies (snd first_handshake_state) (length (calls (snd first_handshake_state))) =
       (JArray [], PNone)" using r2 by (simp add: s1)
  have a4: "connected_callback example_lib first_handshake_state =
       Return () second_handshake_state" using c2 by (simp add: s1 s2)
  have a5: "last (tasks (snd second_handshake_state)) = ?init" using t2 by (simp add: s2)
  have a6: "dom (self_orders (fst second_handshake_state)) = {''1''}" using d1 by (simp add: s2)
  have a7: "connected_callback example_lib (example_trade, shared_id_world) =
       Return () shared_id_state" using c3 by (simp add: s3)
  have a8: "card (dom (self_orders (fst shared_id_state))) = 1" using d3 by (simp add: s3)
  have a9: "\<exists>order. self_orders (fst shared_id_state) ''1'' = Some order \<and>
               o_remain order = Some 3" using e3 by (simp add: s3)
  from a1 a2 a3 a4 a5 a6 a7 kp a8 example_rows(1,4) a9 show ?thesis by (intro conjI)
qed

text \<open>
  C8, amended. When the fetch of the snapshot succeeds (the client can sign the request
  and the reply is a list of well-formed rows with no error), \<^verbatim>\<open>connected_callback\<close>
  returns, and:
  \<^item> the tasks started are one per row, in order (the order-update callback with the
    order of the row for a kept row, the error callback for a skipped one), followed
    by the init callback with \<^verbatim>\<open>(True, None)\<close>;
  \<^item> the keys of the mapping are those it had before and the order ids of the kept
    rows;
  \<^item> when the kept rows have distinct order ids, the entry of each kept row's id is
    the order built from that row, whose remaining quantity is
    \<^verbatim>\<open>float(origQty) - float(executedQty)\<close>;
  \<^item> when moreover the mapping was empty before, it has exactly as many entries as
    there are kept rows.
\<close>

theorem snapshot_seeds_orders:
  assumes ready: "open_orders_ready L self u sk"
    and reply: "replies w (length (calls w)) = (JArray rows, err)" "\<not> truthy err"
    and wf: "\<forall>r \<in> set rows. well_formed_row L r"
  shows "\<exists>self' w'.
     connected_callback L (self, w) = Return () (self', w') \<and>
     tasks w' = tasks w @ concat (map (row_tasks L self) rows) @
                [Task (Fn (self_init_callback self)) [AData (PBool True), AData PNone]] \<and>
     (\<forall>r \<in> set rows.
        row_tasks L self r =
          (case row_order L self r of
             Some order \<Rightarrow> [Task (Fn (self_order_update_callback self)) [AOrder order]]
           | None \<Rightarrow>
               [Task (Fn (self_error_callback self)) [AData (PStr ''order status error.'')]]) \<and>
        (row_order L self r = None \<longleftrightarrow> skipped r)) \<and>
     dom (self_orders self') = dom (self_orders self) \<union> row_id ` set (kept rows) \<and>
     (distinct (map row_id (kept rows)) \<longrightarrow>
        (\<forall>r \<in> set (kept rows).
           \<exists>order. self_orders self' (row_id r) = Some order \<and>
                   row_order L self r = Some order \<and>
                   o_order_id order = row_id r \<and>
                   o_remain order = row_remain L r \<and> row_remain L r \<noteq> None)) \<and>
     (self_orders self = Map.empty \<and> distinct (map row_id (kept rows)) \<longrightarrow>
        card (dom (self_orders self')) = length (kept rows))"
proof -
  let ?om = "foldl (seed L self) (self_orders self) rows"
  let ?self' = "self\<lparr>self_orders := ?om\<rparr>"
  let ?w' = "w\<lparr>ticks := Suc (ticks w),
          calls := calls w @ [open_orders_call L self u sk (now w (ticks w))],
          tasks := tasks w @ concat (map (row_tasks L self) rows) @
                   [Task (Fn (self_init_callback self)) [AData (PBool True), AData PNone]]\<rparr>"
  have cc: "connected_callback L (self, w) = Return () (?self', ?w')"
    by (rule connected_callback_loads [OF assms])
  have tasks: "\<forall>r \<in> set rows.
        row_tasks L self r =
          (case row_order L self r of
             Some order \<Rightarrow> [Task (Fn (self_order_update_callback self)) [AOrder order]]
           | None \<Rightarrow>
               [Task (Fn (self_error_callback self)) [AData (PStr ''order status error.'')]]) \<and>
        (row_order L self r = None \<longleftrightarrow> skipped r)"
  proof
    fix r assume "r \<in> set rows"
    then have "well_formed_row L r" using wf by simp
    then have "row_order L self r = None \<longleftrightarrow> skipped r"
      using row_order_kept [of L r self] row_order_skipped [of r L self]
      by (cases "skipped r") auto
    then show "row_tasks L self r =
          (case row_order L self r of
             Some order \<Rightarrow> [Task (Fn (self_order_update_callback self)) [AOrder order]]
           | None \<Rightarrow>
               [Task (Fn (self_error_callback self)) [AData (PStr ''order status error.'')]]) \<and>
        (row_order L self r = None \<longleftrightarrow> skipped r)"
      by (simp add: row_tasks_def)
  qed
  have dom: "dom ?om = dom (self_orders self) \<union> row_id ` set (kept rows)"
    by (rule dom_seed [OF wf])
  have each: "distinct (map row_id (kept rows)) \<longrightarrow>
        (\<forall>r \<in> set (kept rows).
           \<exists>order. ?om (row_id r) = Some order \<and>
                   row_order L self r = Some order \<and>
                   o_order_id order = row_id r \<and>
                   o_remain order = row_remain L r \<and> row_remain L r \<noteq> None)"
  proof (intro impI ballI)
    fix r assume d: "distinct (map row_id (kept rows))" and r: "r \<in> set (kept rows)"
    then have "well_formed_row L r" "\<not> skipped r" using wf by (auto simp: kept_def)
    from row_order_kept [OF this, of self] seed_lookup [OF wf d r, of self "self_orders self"]
    show "\<exists>order. ?om (row_id r) = Some order \<and>
                   row_order L self r = Some order \<and>
                   o_order_id order = row_id r \<and>
                   o_remain order = row_remain L r \<and> row_remain L r \<noteq> None"
      by auto
  qed
  have card: "self_orders self = Map.empty \<and> distinct (map row_id (kept rows)) \<longrightarrow>
        card (dom ?om) = length (kept rows)"
  proof
    assume a: "self_orders self = Map.empty \<and> distinct (map row_id (kept rows))"
    then have "dom ?om = set (map row_id (kept rows))" using dom by simp
    then show "card (dom ?om) = length (kept rows)"
      using a distinct_card [of "map row_id (kept rows)"] by simp
  qed
  show ?thesis using cc tasks dom each card by simp
qed

theorem snapshot_seeds_orders_witness:
  "\<exists>self' w' o1 o2.
     connected_callback example_lib (example_trade, snapshot_world) = Return () (self', w') \<and>
     length (tasks w') = 4 \<and>
     last (tasks w') = Task (Fn (Callable ''on_init'')) [AData (PBool True), AData PNone] \<and>
     dom (self_orders self') = {''1'', ''2''} \<and>
     card (dom (self_orders self')) = 2 \<and>
     self_orders self' ''1'' = Some o1 \<and> o_order_id o1 = ''1'' \<and> o_remain o1 = Some 1 \<and>
     self_orders self' ''2'' = Some o2 \<and> o_order_id o2 = ''2'' \<and> o_remain o2 = Some 3"
proof -
  let ?rows = "[new_row, partial_row, unknown_row]"
  have reply: "replies snapshot_world (length (calls snapshot_world)) = (JArray ?rows, PNone)"
    "\<not> truthy PNone"
    and tk0: "tasks snapshot_world = []"
    by (simp_all add: snapshot_world_def example_world_def)
  have wf: "\<forall>r \<in> set ?rows. well_formed_row example_lib r"
    using example_rows_wf by simp
  have kp: "kept ?rows = [new_row, partial_row]"
    using example_rows by (simp add: kept_def)
  have dist: "distinct (map row_id (kept ?rows))"
    by (simp add: kp example_rows)
  have empty: "self_orders example_trade = Map.empty"
    and cb: "self_init_callback example_trade = Callable ''on_init''"
    by (simp_all add: example_trade_def)
  from snapshot_seeds_orders [OF example_ready reply wf] obtain self' w' where
    cc: "connected_callback example_lib (example_trade, snapshot_world) = Return () (self', w')"
    and tk: "tasks w' = tasks snapshot_world @
                concat (map (row_tasks example_lib example_trade) ?rows) @
                [Task (Fn (self_init_callback example_trade))
                   [AData (PBool True), AData PNone]]"
    and dm: "dom (self_orders self') =
               dom (self_orders example_trade) \<union> row_id ` set (kept ?rows)"
    and each: "distinct (map row_id (kept ?rows)) \<longrightarrow>
        (\<forall>r \<in> set (kept ?rows).
           \<exists>order. self_orders self' (row_id r) = Some order \<and>
                   row_order example_lib example_trade r = Some order \<and>
                   o_order_id order = row_id r \<and>
                   o_remain order = row_remain example_lib r \<and>
                   row_remain example_lib r \<noteq> None)"
    and cd: "self_orders example_trade = Map.empty \<and> distinct (map row_id (kept ?rows)) \<longrightarrow>
        card (dom (self_orders self')) = length (kept ?rows)"
    by blast
  from each dist obtain o1 where
    o1: "self_orders self' (row_id new_row) = Some o1" "o_order_id o1 = row_id new_row"
        "o_remain o1 = row_remain example_lib new_row"
    unfolding kp by auto
  from each dist obtain o2 where
    o2: "self_orders self' (row_id partial_row) = Some o2" "o_order_id o2 = row_id partial_row"
        "o_remain o2 = row_remain example_lib partial_row"
    unfolding kp by auto
  have len: "length (tasks w') = 4" by (simp add: tk tk0)
  have lst: "last (tasks w') = Task (Fn (Callable ''on_init'')) [AData (PBool True), AData PNone]"
    by (simp add: tk cb)
  have d: "dom (self_orders self') = {''1'', ''2''}"
    by (simp add: dm empty kp example_rows)
  have c: "card (dom (self_orders self')) = 2"
    using cd empty dist by (simp add: kp)
  from cc len lst d c o1 o2 show ?thesis
    unfolding example_rows by blast
qed

subsection \<open>The mapping over a session\<close>

text \<open>
  What one row of the snapshot, the whole handshake and one message do to the mapping
  and to the replies still to come.
\<close>

lemma snapshot_order_Inr:
  "snapshot_order L self r st = Inr order \<Longrightarrow>
     o_status order = Some st \<and> o_order_id order = row_id r"
  by (auto simp: snapshot_order_def row_id_def getitem_def get_def
      split: sum.splits option.splits)

lemma load_order_info_cases:
  assumes "load_order_info L r (self, w) = Return () (self', w')"
  shows "replies w' = replies w \<and>
         (self' = self \<or>
          (\<exists>order st. snapshot_status (get r ''status'') = Some st \<and>
             o_status order = Some st \<and>
             self' = self\<lparr>self_orders := (self_orders self)(o_order_id order \<mapsto> order)\<rparr>))"
proof (cases "getitem r ''status''")
  case (Inl a)
  then show ?thesis using assms by (simp add: load_order_info_def)
next
  case st: (Inr x)
  then have g: "get r ''status'' = x" by (simp add: get_Some getitem_Inr)
  show ?thesis
  proof (cases "snapshot_status x")
    case None
    then show ?thesis using assms st
      by (auto simp: load_order_info_def SingleTask_run_def)
  next
    case s: (Some status)
    show ?thesis
    proof (cases "snapshot_order L self r status")
      case (Inl a)
      then show ?thesis using assms st s by (simp add: load_order_info_def)
    next
      case (Inr order)
      from snapshot_order_Inr [OF Inr] have "o_status order = Some status" by simp
      then show ?thesis using assms st s Inr g
        by (auto simp: load_order_info_def SingleTask_run_def)
    qed
  qed
qed

lemma no_terminal_update:
  assumes "no_terminal_orders om" and "o_status order = Some st" and "\<not> terminal st"
  shows "no_terminal_orders (om(k \<mapsto> order))"
  using assms unfolding no_terminal_orders_def by auto

lemma load_order_infos_keeps_no_terminal:
  assumes "load_order_infos L rows (self, w) = Return () (self', w')"
    and "no_terminal_orders (self_orders self)" and "list_all open_row rows"
  shows "no_terminal_orders (self_orders self') \<and> replies w' = replies w"
  using assms
proof (induction rows arbitrary: self w)
  case Nil
  then show ?case by simp
next
  case (Cons r rows)
  from Cons.prems(1) obtain self1 w1 where
    one: "load_order_info L r (self, w) = Return () (self1, w1)"
    and rest: "load_order_infos L rows (self1, w1) = Return () (self', w')"
    by (cases "load_order_info L r (self, w)") auto
  from Cons.prems(3) have op: "open_row r" "list_all open_row rows" by simp_all
  from load_order_info_cases [OF one] have rp: "replies w1 = replies w"
    and cs: "self1 = self \<or>
          (\<exists>order st. snapshot_status (get r ''status'') = Some st \<and>
             o_status order = Some st \<and>
             self1 = self\<lparr>self_orders := (self_orders self)(o_order_id order \<mapsto> order)\<rparr>)"
    by simp_all
  have "no_terminal_orders (self_orders self1)"
    using cs
  proof
    assume "self1 = self"
    then show ?thesis using Cons.prems(2) by simp
  next
    assume "\<exists>order st. snapshot_status (get r ''status'') = Some st \<and>
             o_status order = Some st \<and>
             self1 = self\<lparr>self_orders := (self_orders self)(o_order_id order \<mapsto> order)\<rparr>"
    then obtain order st where *: "snapshot_status (get r ''status'') = Some st"
      "o_status order = Some st"
      "self1 = self\<lparr>self_orders := (self_orders self)(o_order_id order \<mapsto> order)\<rparr>"
      by blast
    from op(1) *(1) have "\<not> terminal st" by (simp add: open_row_def)
    from no_terminal_update [OF Cons.prems(2) *(2) this] *(3) show ?thesis by simp
  qed
  from Cons.IH [OF rest this op(2)] rp show ?case by simp
qed

lemma get_open_orders_reply:
  assumes "BinanceRestAPI_get_open_orders L api smb w = Return r w'"
  shows "r = replies w (length (calls w)) \<and> replies w' = replies w"
  using assms
  by (auto simp: BinanceRestAPI_get_open_orders_def get_cur_timestamp_ms_def request_def
      fetch_def Let_def split: sum.splits)

lemma connected_callback_keeps_no_terminal:
  assumes cc: "connected_callback L (self, w) = Return () (self', w')"
    and inv: "no_terminal_orders (self_orders self)" and op: "open_snapshots w"
  shows "no_terminal_orders (self_orders self') \<and> replies w' = replies w"
proof (cases "BinanceRestAPI_get_open_orders L (self_rest_api self)
                (PStr (self_raw_symbol self)) w")
  case (Raise x w1)
  then show ?thesis using cc by (simp add: connected_callback_def)
next
  case (Return r w1)
  obtain body err where r: "r = (body, err)" by (cases r)
  from get_open_orders_reply [OF Return] r have
    rp: "replies w (length (calls w)) = (body, err)" "replies w1 = replies w" by simp_all
  show ?thesis
  proof (cases "truthy err")
    case True
    then show ?thesis using cc Return r inv rp
      by (auto simp: connected_callback_def SingleTask_run_def)
  next
    case False
    show ?thesis
    proof (cases body)
      case JNull
      then show ?thesis using cc Return r False by (simp add: connected_callback_def)
    next
      case (JObject d)
      then show ?thesis using cc Return r False inv rp
        by (auto simp: connected_callback_def SingleTask_run_def split: if_splits)
    next
      case (JArray rows)
      from op rp(1) JArray have rows: "list_all open_row rows"
        unfolding open_snapshots_def by blast
      from cc Return r False JArray obtain self2 w2 where
        ld: "load_order_infos L rows (self, w1) = Return () (self2, w2)"
        and fin: "self' = self2"
          "w' = SingleTask_run (Fn (self_init_callback self2)) [AData (PBool True), AData PNone] w2"
        by (cases "load_order_infos L rows (self, w1)")
           (auto simp: connected_callback_def)
      from load_order_infos_keeps_no_terminal [OF ld inv rows] fin rp show ?thesis
        by (simp add: SingleTask_run_def)
    qed
  qed
qed

lemma process_replies:
  assumes "process L msg (self, w) = Return () (self', w')"
  shows "replies w' = replies w"
proof -
  from assms obtain r self1 w1 where
    pn: "process_notify L msg (self, w) = Return r (self1, w1)"
    by (rule process_notify_obtain)
  have w1: "w' = w1"
  proof (cases r)
    case None
    then show ?thesis using assms pn by (simp add: process_def)
  next
    case (Some a)
    then obtain oid st where "r = Some (oid, st)" by (cases a) simp
    then show ?thesis using assms pn
      by (simp add: process_def terminal_set del: set_simps split: if_splits sum.splits)
  qed
  from process_notify_cases [OF pn] have "replies w1 = replies w"
  proof
    assume "r = None \<and> self1 = self \<and> replies w1 = replies w \<and>
          (get msg ''e'' \<noteq> PStr ''executionReport'' \<or>
           map_of msg ''s'' \<noteq> Some (PStr (self_raw_symbol self)) \<or>
           event_status msg = None)"
    then show ?thesis by simp
  next
    assume "\<exists>order st. r = Some (event_id msg, st) \<and> event_status msg = Some st \<and>
            o_status order = Some st \<and>
            o_remain order = event_remain L msg \<and> o_utime order = event_utime msg \<and>
            self1 = store self (event_id msg) order \<and>
            w1 = SingleTask_run (Fn (self_order_update_callback self)) [AOrder order] w"
    then obtain order where
      "w1 = SingleTask_run (Fn (self_order_update_callback self)) [AOrder order] w"
      by blast
    then show ?thesis by (simp add: SingleTask_run_def)
  qed
  with w1 show ?thesis by simp
qed

lemma open_snapshots_replies:
  "replies w' = replies w \<Longrightarrow> open_snapshots w \<Longrightarrow> open_snapshots w'"
  by (simp add: open_snapshots_def)

lemma process_all_keeps_no_terminal:
  assumes "process_all L msgs (self, w) = Return () (self', w')"
    and "no_terminal_orders (self_orders self)"
  shows "no_terminal_orders (self_orders self')"
  using assms
proof (induction msgs arbitrary: self w)
  case Nil
  then show ?case by simp
next
  case (Cons m msgs)
  from Cons.prems(1) obtain self1 w1 where
    one: "process L m (self, w) = Return () (self1, w1)"
    and rest: "process_all L msgs (self1, w1) = Return () (self', w')"
    by (cases "process L m (self, w)") auto
  from process_keeps_no_terminal [OF one Cons.prems(2)]
  have "no_terminal_orders (self_orders self1)" .
  from Cons.IH [OF rest this] show ?case .
qed

lemma run_Connected:
  assumes "run L (Connected # events) s = Return () s''"
  obtains self1 w1 where "connected_callback L s = Return () (self1, w1)"
    and "run L events (self1, w1) = Return () s''"
proof (cases "connected_callback L s")
  case (Return u s1)
  then show ?thesis using assms that [of "fst s1" "snd s1"] by simp
next
  case (Raise x s1)
  then show ?thesis using assms by simp
qed

lemma run_Message:
  assumes "run L (Message m # events) s = Return () s''"
  obtains self1 w1 where "process L m s = Return () (self1, w1)"
    and "run L events (self1, w1) = Return () s''"
proof (cases "process L m s")
  case (Return u s1)
  then show ?thesis using assms that [of "fst s1" "snd s1"] by simp
next
  case (Raise x s1)
  then show ?thesis using assms by simp
qed

lemma run_keeps_no_terminal:
  assumes "run L events (self, w) = Return () (self', w')"
    and "no_terminal_orders (self_orders self)" and "open_snapshots w"
  shows "no_terminal_orders (self_orders self')"
  using assms
proof (induction events arbitrary: self w)
  case Nil
  then show ?case by simp
next
  case (Cons ev events)
  show ?case
  proof (cases ev)
    case Connected
    with Cons.prems(1) have "run L (Connected # events) (self, w) = Return () (self', w')"
      by simp
    then obtain self1 w1 where
      one: "connected_callback L (self, w) = Return () (self1, w1)"
      and rest: "run L events (self1, w1) = Return () (self', w')"
      by (rule run_Connected)
    from connected_callback_keeps_no_terminal [OF one Cons.prems(2,3)]
    have inv: "no_terminal_orders (self_orders self1)" and rp: "replies w1 = replies w"
      by simp_all
    from rp Cons.prems(3) have "open_snapshots w1" by (rule open_snapshots_replies)
    from Cons.IH [OF rest inv this] show ?thesis .
  next
    case (Message m)
    with Cons.prems(1) have "run L (Message m # events) (self, w) = Return () (self', w')"
      by simp
    then obtain self1 w1 where
      one: "process L m (self, w) = Return () (self1, w1)"
      and rest: "run L events (self1, w1) = Return () (self', w')"
      by (rule run_Message)
    from process_keeps_no_terminal [OF one Cons.prems(2)]
    have inv: "no_terminal_orders (self_orders self1)" .
    from process_replies [OF one] Cons.prems(3) have "open_snapshots w1"
      by (rule open_snapshots_replies)
    from Cons.IH [OF rest inv this] show ?thesis .
  qed
qed

lemma init_no_terminal:
  "BinanceTrade_init kwargs w0 = Return self w1 \<Longrightarrow> no_terminal_orders (self_orders self)"
  using init_fields [of kwargs w0 self w1] by (simp add: no_terminal_orders_def)

lemma process_all_returns:
  assumes "\<forall>m \<in> set msgs. well_formed_report L self m"
  shows "\<exists>om w'. process_all L msgs (self, w) = Return () (self\<lparr>self_orders := om\<rparr>, w')"
  using assms
proof (induction msgs arbitrary: self w)
  case Nil
  have "self\<lparr>self_orders := self_orders self\<rparr> = self" by simp
  then show ?case by (metis process_all.simps(1))
next
  case (Cons m msgs)
  then have wf: "well_formed_report L self m" by simp
  from process_report [OF wf, of w] obtain om1 w1 where
    one: "process L m (self, w) = Return () (self\<lparr>self_orders := om1\<rparr>, w1)"
    by blast
  have "\<forall>m \<in> set msgs. well_formed_report L (self\<lparr>self_orders := om1\<rparr>) m"
    using Cons.prems by simp
  from Cons.IH [OF this, of w1] obtain om w' where
    "process_all L msgs (self\<lparr>self_orders := om1\<rparr>, w1) =
       Return () (self\<lparr>self_orders := om1, self_orders := om\<rparr>, w')"
    by blast
  then have "process_all L (m # msgs) (self, w) = Return () (self\<lparr>self_orders := om\<rparr>, w')"
    using one by simp
  then show ?case by blast
qed

text \<open>
  C7. When \<^verbatim>\<open>process\<close> returns from an execution report for the symbol of the object
  whose mapped status is terminal, the order id has no entry in the mapping; the
  notification was started on the state in which the order, with its terminal status,
  was still stored, and the final state is that state without the entry. The mapping
  holds no order of terminal status after every call of \<^verbatim>\<open>process\<close> that returns:
  \<^item> \<^verbatim>\<open>process\<close> preserves the property;
  \<^item> it holds of the object the constructor builds, hence after any sequence of
    messages processed from there;
  \<^item> it holds after any sequence of handshakes and messages from there, when the
    snapshots list open orders only.

  On well-formed reports \<^verbatim>\<open>process\<close> does return, whatever the mapping holds.
\<close>

theorem terminal_report_evicts_after_notifying:
  "(process L msg (self, w) = Return () (self', w')
      \<and> get msg ''e'' = PStr ''executionReport''
      \<and> map_of msg ''s'' = Some (PStr (self_raw_symbol self))
      \<and> event_status msg = Some st \<and> terminal st
    \<longrightarrow> self_orders self' (event_id msg) = None \<and>
        (\<exists>order self1.
           process_notify L msg (self, w) =
             Return (Some (event_id msg, st)) (self1, w') \<and>
           w' = SingleTask_run (Fn (self_order_update_callback self)) [AOrder order] w \<and>
           self_orders self1 (event_id msg) = Some order \<and>
           o_status order = Some st \<and>
           self' = self1\<lparr>self_orders := (self_orders self1)(event_id msg := None)\<rparr>))
   \<and> (process L msg (self, w) = Return () (self', w')
      \<and> no_terminal_orders (self_orders self)
    \<longrightarrow> no_terminal_orders (self_orders self'))
   \<and> (BinanceTrade_init kwargs w0 = Return self0 w1
      \<and> process_all L msgs (self0, wa) = Return () (selfa, wa')
    \<longrightarrow> no_terminal_orders (self_orders selfa))
   \<and> (BinanceTrade_init kwargs w0 = Return self0 w1
      \<and> open_snapshots wb
      \<and> run L events (self0, wb) = Return () (selfb, wb')
    \<longrightarrow> no_terminal_orders (self_orders selfb))
   \<and> ((\<forall>m \<in> set reports. well_formed_report L selfr m)
    \<longrightarrow> (\<exists>selfr' wr'. process_all L reports (selfr, wr) = Return () (selfr', wr')))"
proof -
  have evict: "process L msg (self, w) = Return () (self', w')
      \<and> get msg ''e'' = PStr ''executionReport''
      \<and> map_of msg ''s'' = Some (PStr (self_raw_symbol self))
      \<and> event_status msg = Some st \<and> terminal st
    \<longrightarrow> self_orders self' (event_id msg) = None \<and>
        (\<exists>order self1.
           process_notify L msg (self, w) =
             Return (Some (event_id msg, st)) (self1, w') \<and>
           w' = SingleTask_run (Fn (self_order_update_callback self)) [AOrder order] w \<and>
           self_orders self1 (event_id msg) = Some order \<and>
           o_status order = Some st \<and>
           self' = self1\<lparr>self_orders := (self_orders self1)(event_id msg := None)\<rparr>)"
    using process_terminal_report [of L msg self w self' w' st] by (intro impI) simp
  have keep: "process L msg (self, w) = Return () (self', w')
      \<and> no_terminal_orders (self_orders self)
    \<longrightarrow> no_terminal_orders (self_orders self')"
    using process_keeps_no_terminal [of L msg self w self' w'] by (intro impI) simp
  have stream: "BinanceTrade_init kwargs w0 = Return self0 w1
      \<and> process_all L msgs (self0, wa) = Return () (selfa, wa')
    \<longrightarrow> no_terminal_orders (self_orders selfa)"
    using process_all_keeps_no_terminal [of L msgs self0 wa selfa wa']
      init_no_terminal [of kwargs w0 self0 w1] by (intro impI) simp
  have session: "BinanceTrade_init kwargs w0 = Return self0 w1
      \<and> open_snapshots wb
      \<and> run L events (self0, wb) = Return () (selfb, wb')
    \<longrightarrow> no_terminal_orders (self_orders selfb)"
    using run_keeps_no_terminal [of L events self0 wb selfb wb']
      init_no_terminal [of kwargs w0 self0 w1] by (intro impI) simp
  have total: "(\<forall>m \<in> set reports. well_formed_report L selfr m)
    \<longrightarrow> (\<exists>selfr' wr'. process_all L reports (selfr, wr) = Return () (selfr', wr'))"
    using process_all_returns [of reports L selfr wr] by blast
  from evict keep stream session total show ?thesis by (intro conjI)
qed

theorem terminal_report_evicts_after_notifying_witness:
  "(\<exists>self' w'. process example_lib fill_report (example_trade, example_world) =
                Return () (self', w')
     \<and> self_orders self' ''2'' = None
     \<and> no_terminal_orders (self_orders self')
     \<and> (\<exists>order self1.
           process_notify example_lib fill_report (example_trade, example_world) =
             Return (Some (''2'', ORDER_STATUS_FILLED)) (self1, w') \<and>
           w' = SingleTask_run (Fn (Callable ''on_order_update'')) [AOrder order] example_world \<and>
           self_orders self1 ''2'' = Some order \<and>
           o_status order = Some ORDER_STATUS_FILLED))
   \<and> (\<exists>selfa wa. process_all example_lib [new_report, fill_report]
                     (example_trade, example_world) = Return () (selfa, wa)
         \<and> no_terminal_orders (self_orders selfa))
   \<and> (\<exists>selfb wb. run example_lib [Connected, Message new_report, Message fill_report]
                     (example_trade, snapshot_world) = Return () (selfb, wb)
         \<and> no_terminal_orders (self_orders selfb))"
proof -
  have wf: "\<forall>m \<in> set [new_report, fill_report]. well_formed_report example_lib example_trade m"
    by (simp add: well_formed_report_def new_report_def fill_report_def get_def
        event_status_def stream_status_def event_remain_def example_lib_def example_trade_def)
  then have wff: "well_formed_report example_lib example_trade fill_report" by simp
  from process_report [OF wff, of example_world] obtain self' w' where
    ret: "process example_lib fill_report (example_trade, example_world) = Return () (self', w')"
    by blast
  have ev: "get fill_report ''e'' = PStr ''executionReport''"
    "map_of fill_report ''s'' = Some (PStr (self_raw_symbol example_trade))"
    "event_status fill_report = Some ORDER_STATUS_FILLED"
    "terminal ORDER_STATUS_FILLED"
    "event_id fill_report = ''2''"
    by (simp_all add: fill_report_def get_def event_status_def stream_status_def event_id_def
        example_trade_def terminal_def str_int_digits)
  have inv: "no_terminal_orders (self_orders example_trade)"
    by (simp add: no_terminal_orders_def example_trade_def)
  have first: "\<exists>self' w'. process example_lib fill_report (example_trade, example_world) =
                Return () (self', w')
     \<and> self_orders self' ''2'' = None
     \<and> no_terminal_orders (self_orders self')
     \<and> (\<exists>order self1.
           process_notify example_lib fill_report (example_trade, example_world) =
             Return (Some (''2'', ORDER_STATUS_FILLED)) (self1, w') \<and>
           w' = SingleTask_run (Fn (Callable ''on_order_update'')) [AOrder order] example_world \<and>
           self_orders self1 ''2'' = Some order \<and>
           o_status order = Some ORDER_STATUS_FILLED)"
  proof -
    note t = terminal_report_evicts_after_notifying
            [where L = example_lib and msg = fill_report and self = example_trade
               and w = example_world and self' = self' and w' = w'
               and st = ORDER_STATUS_FILLED]
    have cb: "self_order_update_callback example_trade = Callable ''on_order_update''"
      by (simp add: example_trade_def)
    from t ret ev(1-4) have
      "self_orders self' (event_id fill_report) = None \<and>
        (\<exists>order self1.
           process_notify example_lib fill_report (example_trade, example_world) =
             Return (Some (event_id fill_report, ORDER_STATUS_FILLED)) (self1, w') \<and>
           w' = SingleTask_run (Fn (self_order_update_callback example_trade))
                  [AOrder order] example_world \<and>
           self_orders self1 (event_id fill_report) = Some order \<and>
           o_status order = Some ORDER_STATUS_FILLED \<and>
           self' = self1\<lparr>self_orders := (self_orders self1)(event_id fill_report := None)\<rparr>)"
      by blast
    moreover from t ret inv have "no_terminal_orders (self_orders self')" by blast
    ultimately show ?thesis using ret unfolding ev(5) cb by blast
  qed
  have init: "BinanceTrade_init example_kwargs example_world =
     Return example_trade
       (example_world\<lparr>tasks := tasks example_world @ [Task (Method ''_init_websocket'') []],
          loops := loops example_world @
                   [(''_reset_listen_key'', 1800), (''_send_heartbeat_msg'', 10)]\<rparr>)"
    by (rule init_example)
  from terminal_report_evicts_after_notifying
         [where L = example_lib and reports = "[new_report, fill_report]"
            and selfr = example_trade and wr = example_world,
          THEN conjunct2, THEN conjunct2, THEN conjunct2, THEN conjunct2]
       wf
  obtain selfa wa where
    pa: "process_all example_lib [new_report, fill_report] (example_trade, example_world) =
           Return () (selfa, wa)"
    by blast
  have second: "\<exists>selfa wa. process_all example_lib [new_report, fill_report]
                     (example_trade, example_world) = Return () (selfa, wa)
         \<and> no_terminal_orders (self_orders selfa)"
    using terminal_report_evicts_after_notifying
            [where kwargs = example_kwargs and ?w0.0 = example_world and self0 = example_trade
               and L = example_lib and msgs = "[new_report, fill_report]"
               and wa = example_world and selfa = selfa and wa' = wa]
          init pa
    by blast
  have ready: "open_orders_ready example_lib example_trade ''SK/api/v3/openOrders'' ''AK''"
    by (simp add: open_orders_ready_def example_lib_def example_trade_def)
  have reply: "replies snapshot_world (length (calls snapshot_world)) =
                 (JArray [new_row, partial_row, unknown_row], PNone)"
    "\<not> truthy PNone"
    by (simp_all add: snapshot_world_def example_world_def)
  have sk: "\<not> skipped new_row" "\<not> skipped partial_row" "skipped unknown_row"
    by (simp_all add: skipped_def new_row_def partial_row_def unknown_row_def get_def
        snapshot_status_def)
  have rr: "row_remain example_lib new_row = Some 1" "row_remain example_lib partial_row = Some 3"
    by (simp_all add: row_remain_def new_row_def partial_row_def get_def example_lib_def)
  have wfr: "\<forall>r \<in> set [new_row, partial_row, unknown_row]. well_formed_row example_lib r"
    using sk rr
    by (simp add: well_formed_row_def) (simp add: new_row_def partial_row_def unknown_row_def)
  from connected_callback_loads [OF ready reply wfr] obtain om1 w1 where
    cc: "connected_callback example_lib (example_trade, snapshot_world) =
           Return () (example_trade\<lparr>self_orders := om1\<rparr>, w1)"
    by blast
  have "\<forall>m \<in> set [new_report, fill_report].
          well_formed_report example_lib (example_trade\<lparr>self_orders := om1\<rparr>) m"
    using wf by simp
  from process_all_returns [OF this, of w1] obtain selfb wb where
    pb: "process_all example_lib [new_report, fill_report]
           (example_trade\<lparr>self_orders := om1\<rparr>, w1) = Return () (selfb, wb)"
    by blast
  have rn: "run example_lib [Connected, Message new_report, Message fill_report]
              (example_trade, snapshot_world) = Return () (selfb, wb)"
  proof -
    from pb obtain s12 where
      p1: "process example_lib new_report (example_trade\<lparr>self_orders := om1\<rparr>, w1) =
             Return () s12" and
      p2: "process example_lib fill_report s12 = Return () (selfb, wb)"
      by (auto split: outcome.splits)
    from cc p1 p2 show ?thesis by simp
  qed
  have op: "open_snapshots snapshot_world"
    by (simp add: open_snapshots_def snapshot_world_def example_world_def open_row_def
        new_row_def partial_row_def unknown_row_def get_def snapshot_status_def terminal_def)
  have third: "\<exists>selfb wb. run example_lib [Connected, Message new_report, Message fill_report]
                     (example_trade, snapshot_world) = Return () (selfb, wb)
         \<and> no_terminal_orders (self_orders selfb)"
    using terminal_report_evicts_after_notifying
            [where kwargs = example_kwargs and ?w0.0 = example_world and self0 = example_trade
               and L = example_lib
               and events = "[Connected, Message new_report, Message fill_report]"
               and wb = snapshot_world and selfb = selfb and wb' = wb]
          init rn op
    by blast
  from first second third show ?thesis by (intro conjI)
qed

text \<open>
  The condition on the snapshots cannot be dropped from the part about handshakes:
  \<^verbatim>\<open>connected_callback\<close> has a branch for every status of the vocabulary and evicts
  nothing, so a snapshot row of status \<^verbatim>\<open>FILLED\<close> would be stored, and a later report
  about another order would leave that entry in the mapping.
\<close>

lemma terminal_snapshot_row_stays:
  "connected_callback example_lib (example_trade, filled_snapshot_world) = Return () seeded_state
   \<and> process example_lib new_report seeded_state = Return () after_state
   \<and> map_option o_status (self_orders (fst after_state) ''1'') = Some (Some ORDER_STATUS_FILLED)
   \<and> \<not> no_terminal_orders (self_orders (fst after_state))"
proof -
  have s: "seeded_state =
     (example_trade
        \<lparr>self_orders :=
           [''1'' \<mapsto>
              \<lparr>o_platform = Data (PStr ''binance''), o_account = Data (PStr ''acct''),
               o_strategy = Data (PStr ''strat''), o_order_id = ''1'',
               o_client_order_id = PStr ''c1'', o_action = ORDER_ACTION_BUY,
               o_order_type = ORDER_TYPE_LIMIT, o_symbol = Data (PStr ''BTC/USDT''),
               o_price = PStr ''100'', o_quantity = PInt 1, o_remain = Some 0,
               o_status = Some ORDER_STATUS_FILLED, o_ctime = PInt 10,
               o_utime = Some (PInt 20)\<rparr>]\<rparr>,
      snd seeded_state)"
    "connected_callback example_lib (example_trade, filled_snapshot_world) =
       Return () seeded_state"
    by (simp_all add: seeded_state_def state_of_def connected_callback_def
        BinanceRestAPI_get_open_orders_def get_cur_timestamp_ms_def request_def dict_update_def
        sign_def query_of_2 fetch_def Let_def getitem_def SingleTask_run_def str_int_1000
        str_int_digits example_trade_def example_lib_def example_world_def
        filled_snapshot_world_def load_order_info_def snapshot_status_def snapshot_order_def
        filled_row_def)
  let ?T = "fst seeded_state"
  have wf: "well_formed_report example_lib ?T new_report"
    by (subst s(1))
       (simp add: well_formed_report_def new_report_def get_def event_status_def
          stream_status_def event_remain_def example_lib_def example_trade_def)
  have id: "event_id new_report = ''2''"
    by (simp add: event_id_def new_report_def get_def str_int_digits)
  from process_report [OF wf, of "snd seeded_state"] obtain order st where
    pr: "process example_lib new_report (?T, snd seeded_state) =
           Return ()
             (?T\<lparr>self_orders :=
                   (self_orders ?T)
                     (event_id new_report := if terminal st then None else Some order)\<rparr>,
              SingleTask_run (Fn (self_order_update_callback ?T)) [AOrder order]
                (snd seeded_state))"
    by blast
  have old: "map_option o_status (self_orders ?T ''1'') = Some (Some ORDER_STATUS_FILLED)"
    by (subst s(1)) simp
  have p: "process example_lib new_report seeded_state = Return () after_state"
    "map_option o_status (self_orders (fst after_state) ''1'') = Some (Some ORDER_STATUS_FILLED)"
    using pr old by (simp_all add: after_state_def state_of_def id)
  have "\<not> no_terminal_orders (self_orders (fst after_state))"
    using p(2) unfolding no_terminal_orders_def terminal_def
    by (cases "self_orders (fst after_state) ''1''") auto
  with s(2) p show ?thesis by simp
qed

subsection \<open>The status of the orders on both paths\<close>

lemma row_order_Some:
  "row_order L self r = Some order \<Longrightarrow>
     o_status order = normalized_status (get r ''status'') \<and> o_order_id order = row_id r"
  by (auto simp: row_order_def snapshot_status_table [symmetric] dest: snapshot_order_Inr
      split: option.splits sum.splits)

lemma foldl_seed_entry:
  "foldl (seed L self) om rows k = Some order \<Longrightarrow>
     om k = Some order \<or> (\<exists>r \<in> set rows. row_order L self r = Some order \<and> row_id r = k)"
proof (induction rows arbitrary: om)
  case Nil
  then show ?case by simp
next
  case (Cons r rows)
  from Cons.prems have "foldl (seed L self) (seed L self om r) rows k = Some order" by simp
  from Cons.IH [OF this] show ?case
  proof
    assume s: "seed L self om r k = Some order"
    show ?thesis
    proof (cases "row_order L self r")
      case None
      then show ?thesis using s by (simp add: seed_def)
    next
      case (Some o')
      from row_order_Some [OF Some] have id: "o_order_id o' = row_id r" by simp
      show ?thesis
      proof (cases "k = row_id r")
        case True
        then have "o' = order" using s Some id by (simp add: seed_def)
        then show ?thesis using Some True by simp
      next
        case False
        then show ?thesis using s Some id by (simp add: seed_def)
      qed
    qed
  next
    assume "\<exists>r \<in> set rows. row_order L self r = Some order \<and> row_id r = k"
    then show ?thesis by auto
  qed
qed

lemma load_order_info_known:
  assumes wf: "well_formed_row L r" and st: "normalized_status (get r ''status'') = Some st"
  shows "\<exists>order. o_status order = Some st \<and> o_order_id order = row_id r \<and>
           load_order_info L r (self, w) =
             Return ()
               (self\<lparr>self_orders := (self_orders self)(row_id r \<mapsto> order)\<rparr>,
                SingleTask_run (Fn (self_order_update_callback self)) [AOrder order] w)"
proof -
  from st have ns: "\<not> skipped r" by (simp add: skipped_def snapshot_status_table)
  from row_order_kept [OF wf ns, of self] obtain order where
    o: "row_order L self r = Some order" "o_order_id order = row_id r"
       "o_status order = snapshot_status (get r ''status'')"
    by blast
  have "load_order_info L r (self, w) =
             Return ()
               (self\<lparr>self_orders := (self_orders self)(row_id r \<mapsto> order)\<rparr>,
                SingleTask_run (Fn (self_order_update_callback self)) [AOrder order] w)"
    by (simp add: load_order_info_wf [OF wf] seed_def row_tasks_def o SingleTask_run_def)
  with o st show ?thesis by (auto simp: snapshot_status_table)
qed

lemma row_tasks_status:
  assumes wf: "well_formed_row L r"
  shows "case normalized_status (get r ''status'') of
           None \<Rightarrow>
             row_tasks L self r =
               [Task (Fn (self_error_callback self)) [AData (PStr ''order status error.'')]]
         | Some s \<Rightarrow>
             \<exists>order. row_tasks L self r =
                       [Task (Fn (self_order_update_callback self)) [AOrder order]] \<and>
                     o_status order = Some s \<and> o_order_id order = row_id r"
proof (cases "normalized_status (get r ''status'')")
  case None
  then have "skipped r" by (simp add: skipped_def snapshot_status_table)
  from row_order_skipped [OF this, of L self] None show ?thesis
    by (simp add: row_tasks_def)
next
  case (Some s)
  then have ns: "\<not> skipped r" by (simp add: skipped_def snapshot_status_table)
  from row_order_kept [OF wf ns, of self] obtain order where
    o: "row_order L self r = Some order" "o_order_id order = row_id r"
       "o_status order = snapshot_status (get r ''status'')"
    by blast
  then show ?thesis using Some by (simp add: row_tasks_def snapshot_status_table)
qed

lemma connected_callback_statuses:
  assumes ready: "open_orders_ready L self u sk"
    and reply: "replies w (length (calls w)) = (JArray rows, err)" "\<not> truthy err"
    and wf: "\<forall>r \<in> set rows. well_formed_row L r"
  shows "\<exists>om w'.
     connected_callback L (self, w) = Return () (self\<lparr>self_orders := om\<rparr>, w') \<and>
     tasks w' = tasks w @ concat (map (row_tasks L self) rows) @
                [Task (Fn (self_init_callback self)) [AData (PBool True), AData PNone]] \<and>
     (\<forall>r \<in> set rows.
        case normalized_status (get r ''status'') of
          None \<Rightarrow>
            row_tasks L self r =
              [Task (Fn (self_error_callback self)) [AData (PStr ''order status error.'')]]
        | Some s \<Rightarrow>
            \<exists>order. row_tasks L self r =
                      [Task (Fn (self_order_update_callback self)) [AOrder order]] \<and>
                    o_status order = Some s \<and> o_order_id order = row_id r) \<and>
     (\<forall>k order. om k = Some order \<longrightarrow>
        self_orders self k = Some order \<or>
        (\<exists>r \<in> set rows. row_id r = k \<and> o_order_id order = k \<and>
           o_status order = normalized_status (get r ''status'')))"
proof -
  let ?om = "foldl (seed L self) (self_orders self) rows"
  have a: "\<forall>r \<in> set rows.
        case normalized_status (get r ''status'') of
          None \<Rightarrow>
            row_tasks L self r =
              [Task (Fn (self_error_callback self)) [AData (PStr ''order status error.'')]]
        | Some s \<Rightarrow>
            \<exists>order. row_tasks L self r =
                      [Task (Fn (self_order_update_callback self)) [AOrder order]] \<and>
                    o_status order = Some s \<and> o_order_id order = row_id r"
    using wf row_tasks_status [of L _ self] by blast
  have b: "\<forall>k order. ?om k = Some order \<longrightarrow>
        self_orders self k = Some order \<or>
        (\<exists>r \<in> set rows. row_id r = k \<and> o_order_id order = k \<and>
           o_status order = normalized_status (get r ''status''))"
  proof (intro allI impI)
    fix k order assume "?om k = Some order"
    from foldl_seed_entry [OF this] show "self_orders self k = Some order \<or>
        (\<exists>r \<in> set rows. row_id r = k \<and> o_order_id order = k \<and>
           o_status order = normalized_status (get r ''status''))"
      using row_order_Some [of L self _ order] by blast
  qed
  let ?w' = "w\<lparr>ticks := Suc (ticks w),
          calls := calls w @ [open_orders_call L self u sk (now w (ticks w))],
          tasks := tasks w @ concat (map (row_tasks L self) rows) @
                   [Task (Fn (self_init_callback self)) [AData (PBool True), AData PNone]]\<rparr>"
  have cc: "connected_callback L (self, w) = Return () (self\<lparr>self_orders := ?om\<rparr>, ?w')"
    by (rule connected_callback_loads [OF ready reply wf])
  have t: "tasks ?w' = tasks w @ concat (map (row_tasks L self) rows) @
                [Task (Fn (self_init_callback self)) [AData (PBool True), AData PNone]]"
    by simp
  from cc t a b show ?thesis by blast
qed

lemma process_known:
  assumes wf: "well_formed_report L self msg"
    and st: "normalized_status (get msg ''X'') = Some st"
  shows "\<exists>order. o_status order = Some st \<and>
           process L msg (self, w) =
             Return ()
               (self\<lparr>self_orders :=
                       (self_orders self)
                         (event_id msg := if terminal st then None else Some order)\<rparr>,
                SingleTask_run (Fn (self_order_update_callback self)) [AOrder order] w)"
proof -
  from process_report [OF wf, of w] obtain order st0 where
    o: "event_order L self msg = Some order" "event_status msg = Some st0"
    and p: "process L msg (self, w) =
             Return ()
               (self\<lparr>self_orders :=
                       (self_orders self)
                         (event_id msg := if terminal st0 then None else Some order)\<rparr>,
                SingleTask_run (Fn (self_order_update_callback self)) [AOrder order] w)"
    by blast
  from o(2) st have eq: "st0 = st" by (simp add: event_status_def stream_status_table)
  from event_order_fields [OF o(1)] o(2) eq have "o_status order = Some st" by simp
  with p eq show ?thesis by blast
qed

text \<open>
  C5. Both chains of conditionals compute the table of the status vocabulary (so they
  agree, and give no status outside it), and the order each path builds carries the
  status of the table:
  \<^item> for a well-formed snapshot row whose status is in the vocabulary, one iteration
    of the loop of \<^verbatim>\<open>connected_callback\<close> stores under the row's id an order with the
    mapped status and hands that order to the order-update callback;
  \<^item> when the fetch of the snapshot succeeds, \<^verbatim>\<open>connected_callback\<close> returns, the
    tasks it starts are one per row and then the init callback, the task of a row in
    the vocabulary is the order-update callback on an order with the mapped status and
    that of a row outside it the error callback, and every entry of the mapping that
    was not there before has the id and the mapped status of a row;
  \<^item> for a well-formed execution report, \<^verbatim>\<open>process\<close> returns having handed the
    order-update callback an order with the mapped status, which is the entry of the
    order id afterwards unless the status is terminal.

  An execution report for the symbol of the object whose status is outside the
  vocabulary only starts the error callback: the object, and with it the order
  mapping, is unchanged, \<^verbatim>\<open>process\<close> returns, and the next messages are processed. A
  snapshot row whose status is outside the vocabulary only starts the error callback,
  and the loop goes on with the remaining rows.
\<close>

theorem status_mapping_and_unknown_status:
  "snapshot_status v = normalized_status v \<and> stream_status v = normalized_status v
   \<and> map normalized_status
       [PStr ''NEW'', PStr ''PARTIALLY_FILLED'', PStr ''FILLED'', PStr ''CANCELED'',
        PStr ''REJECTED'', PStr ''EXPIRED''] =
     [Some ORDER_STATUS_SUBMITTED, Some ORDER_STATUS_PARTIAL_FILLED, Some ORDER_STATUS_FILLED,
      Some ORDER_STATUS_CANCELED, Some ORDER_STATUS_FAILED, Some ORDER_STATUS_FAILED]
   \<and> (well_formed_row L row \<and> normalized_status (get row ''status'') = Some st
      \<longrightarrow> (\<exists>order. o_status order = Some st \<and> o_order_id order = row_id row \<and>
             load_order_info L row (selfr, wr) =
               Return ()
                 (selfr\<lparr>self_orders := (self_orders selfr)(row_id row \<mapsto> order)\<rparr>,
                  SingleTask_run (Fn (self_order_update_callback selfr)) [AOrder order] wr)))
   \<and> (open_orders_ready L selfc u sk
        \<and> replies wc (length (calls wc)) = (JArray rows, err) \<and> \<not> truthy err
        \<and> (\<forall>r \<in> set rows. well_formed_row L r)
      \<longrightarrow> (\<exists>om wc'.
             connected_callback L (selfc, wc) = Return () (selfc\<lparr>self_orders := om\<rparr>, wc') \<and>
             tasks wc' =
               tasks wc @ concat (map (row_tasks L selfc) rows) @
               [Task (Fn (self_init_callback selfc)) [AData (PBool True), AData PNone]] \<and>
             (\<forall>r \<in> set rows.
                case normalized_status (get r ''status'') of
                  None \<Rightarrow>
                    row_tasks L selfc r =
                      [Task (Fn (self_error_callback selfc))
                         [AData (PStr ''order status error.'')]]
                | Some s \<Rightarrow>
                    \<exists>order. row_tasks L selfc r =
                              [Task (Fn (self_order_update_callback selfc)) [AOrder order]] \<and>
                            o_status order = Some s \<and> o_order_id order = row_id r) \<and>
             (\<forall>k order. om k = Some order \<longrightarrow>
                self_orders selfc k = Some order \<or>
                (\<exists>r \<in> set rows. row_id r = k \<and> o_order_id order = k \<and>
                   o_status order = normalized_status (get r ''status'')))))
   \<and> (well_formed_report L selfp report \<and> normalized_status (get report ''X'') = Some st'
      \<longrightarrow> (\<exists>order. o_status order = Some st' \<and>
             process L report (selfp, wp) =
               Return ()
                 (selfp\<lparr>self_orders :=
                          (self_orders selfp)
                            (event_id report := if terminal st' then None else Some order)\<rparr>,
                  SingleTask_run (Fn (self_order_update_callback selfp)) [AOrder order] wp)))
   \<and> (get msg ''e'' = PStr ''executionReport''
        \<and> map_of msg ''s'' = Some (PStr (self_raw_symbol self))
        \<and> map_of msg ''i'' = Some i \<and> map_of msg ''X'' = Some x
        \<and> normalized_status x = None
      \<longrightarrow> process L msg (self, w) =
            Return () (self, SingleTask_run (Fn (self_error_callback self))
                               [AData (PStr ''order status error.'')] w)
          \<and> process_all L (msg # msgs) (self, w) =
            process_all L msgs
              (self, SingleTask_run (Fn (self_error_callback self))
                       [AData (PStr ''order status error.'')] w))
   \<and> (map_of order_info ''status'' = Some x' \<and> normalized_status x' = None
      \<longrightarrow> load_order_info L order_info (self', w') =
            Return () (self', SingleTask_run (Fn (self_error_callback self'))
                                [AData (PStr ''order status error.'')] w')
          \<and> load_order_infos L (order_info # order_infos) (self', w') =
            load_order_infos L order_infos
              (self', SingleTask_run (Fn (self_error_callback self'))
                        [AData (PStr ''order status error.'')] w'))"
proof -
  have table: "map normalized_status
       [PStr ''NEW'', PStr ''PARTIALLY_FILLED'', PStr ''FILLED'', PStr ''CANCELED'',
        PStr ''REJECTED'', PStr ''EXPIRED''] =
     [Some ORDER_STATUS_SUBMITTED, Some ORDER_STATUS_PARTIAL_FILLED, Some ORDER_STATUS_FILLED,
      Some ORDER_STATUS_CANCELED, Some ORDER_STATUS_FAILED, Some ORDER_STATUS_FAILED]"
    by (simp add: normalized_status_def status_vocabulary_def)
  have row: "well_formed_row L row \<and> normalized_status (get row ''status'') = Some st
      \<longrightarrow> (\<exists>order. o_status order = Some st \<and> o_order_id order = row_id row \<and>
             load_order_info L row (selfr, wr) =
               Return ()
                 (selfr\<lparr>self_orders := (self_orders selfr)(row_id row \<mapsto> order)\<rparr>,
                  SingleTask_run (Fn (self_order_update_callback selfr)) [AOrder order] wr))"
    using load_order_info_known [of L row st selfr wr] by (intro impI) simp
  have handshake: "open_orders_ready L selfc u sk
        \<and> replies wc (length (calls wc)) = (JArray rows, err) \<and> \<not> truthy err
        \<and> (\<forall>r \<in> set rows. well_formed_row L r)
      \<longrightarrow> (\<exists>om wc'.
             connected_callback L (selfc, wc) = Return () (selfc\<lparr>self_orders := om\<rparr>, wc') \<and>
             tasks wc' =
               tasks wc @ concat (map (row_tasks L selfc) rows) @
               [Task (Fn (self_init_callback selfc)) [AData (PBool True), AData PNone]] \<and>
             (\<forall>r \<in> set rows.
                case normalized_status (get r ''status'') of
                  None \<Rightarrow>
                    row_tasks L selfc r =
                      [Task (Fn (self_error_callback selfc))
                         [AData (PStr ''order status error.'')]]
                | Some s \<Rightarrow>
                    \<exists>order. row_tasks L selfc r =
                              [Task (Fn (self_order_update_callback selfc)) [AOrder order]] \<and>
                            o_status order = Some s \<and> o_order_id order = row_id r) \<and>
             (\<forall>k order. om k = Some order \<longrightarrow>
                self_orders selfc k = Some order \<or>
                (\<exists>r \<in> set rows. row_id r = k \<and> o_order_id order = k \<and>
                   o_status order = normalized_status (get r ''status''))))"
  proof
    assume a: "open_orders_ready L selfc u sk
        \<and> replies wc (length (calls wc)) = (JArray rows, err) \<and> \<not> truthy err
        \<and> (\<forall>r \<in> set rows. well_formed_row L r)"
    then have "open_orders_ready L selfc u sk"
      "replies wc (length (calls wc)) = (JArray rows, err)" "\<not> truthy err"
      "\<forall>r \<in> set rows. well_formed_row L r"
      by simp_all
    then show "\<exists>om wc'.
             connected_callback L (selfc, wc) = Return () (selfc\<lparr>self_orders := om\<rparr>, wc') \<and>
             tasks wc' =
               tasks wc @ concat (map (row_tasks L selfc) rows) @
               [Task (Fn (self_init_callback selfc)) [AData (PBool True), AData PNone]] \<and>
             (\<forall>r \<in> set rows.
                case normalized_status (get r ''status'') of
                  None \<Rightarrow>
                    row_tasks L selfc r =
                      [Task (Fn (self_error_callback selfc))
                         [AData (PStr ''order status error.'')]]
                | Some s \<Rightarrow>
                    \<exists>order. row_tasks L selfc r =
                              [Task (Fn (self_order_update_callback selfc)) [AOrder order]] \<and>
                            o_status order = Some s \<and> o_order_id order = row_id r) \<and>
             (\<forall>k order. om k = Some order \<longrightarrow>
                self_orders selfc k = Some order \<or>
                (\<exists>r \<in> set rows. row_id r = k \<and> o_order_id order = k \<and>
                   o_status order = normalized_status (get r ''status'')))"
      by (rule connected_callback_statuses)
  qed
  have report: "well_formed_report L selfp report
        \<and> normalized_status (get report ''X'') = Some st'
      \<longrightarrow> (\<exists>order. o_status order = Some st' \<and>
             process L report (selfp, wp) =
               Return ()
                 (selfp\<lparr>self_orders :=
                          (self_orders selfp)
                            (event_id report := if terminal st' then None else Some order)\<rparr>,
                  SingleTask_run (Fn (self_order_update_callback selfp)) [AOrder order] wp))"
    using process_known [of L selfp report st' wp] by (intro impI) simp
  have stream: "get msg ''e'' = PStr ''executionReport''
        \<and> map_of msg ''s'' = Some (PStr (self_raw_symbol self))
        \<and> map_of msg ''i'' = Some i \<and> map_of msg ''X'' = Some x
        \<and> normalized_status x = None
      \<longrightarrow> process L msg (self, w) =
            Return () (self, SingleTask_run (Fn (self_error_callback self))
                               [AData (PStr ''order status error.'')] w)
          \<and> process_all L (msg # msgs) (self, w) =
            process_all L msgs
              (self, SingleTask_run (Fn (self_error_callback self))
                       [AData (PStr ''order status error.'')] w)"
    using process_unknown_status [of msg self i x L w] by simp
  have snapshot: "map_of order_info ''status'' = Some x' \<and> normalized_status x' = None
      \<longrightarrow> load_order_info L order_info (self', w') =
            Return () (self', SingleTask_run (Fn (self_error_callback self'))
                                [AData (PStr ''order status error.'')] w')
          \<and> load_order_infos L (order_info # order_infos) (self', w') =
            load_order_infos L order_infos
              (self', SingleTask_run (Fn (self_error_callback self'))
                        [AData (PStr ''order status error.'')] w')"
    using load_unknown_status [of order_info x' L self' w'] by simp
  from snapshot_status_table [of v] stream_status_table [of v] table row handshake report
    stream snapshot
  show ?thesis by (intro conjI)
qed

theorem status_mapping_and_unknown_status_witness:
  "(\<exists>order. o_status order = Some ORDER_STATUS_SUBMITTED \<and> o_order_id order = ''1'' \<and>
      load_order_info example_lib new_row (example_trade, example_world) =
        Return ()
          (example_trade\<lparr>self_orders := (self_orders example_trade)(''1'' \<mapsto> order)\<rparr>,
           SingleTask_run (Fn (Callable ''on_order_update'')) [AOrder order] example_world))
   \<and> (\<exists>om w1 o1 o2.
        connected_callback example_lib (example_trade, snapshot_world) =
          Return () (example_trade\<lparr>self_orders := om\<rparr>, w1) \<and>
        tasks w1 =
          [Task (Fn (Callable ''on_order_update'')) [AOrder o1],
           Task (Fn (Callable ''on_order_update'')) [AOrder o2],
           Task (Fn (Callable ''on_error'')) [AData (PStr ''order status error.'')],
           Task (Fn (Callable ''on_init'')) [AData (PBool True), AData PNone]] \<and>
        o_status o1 = Some ORDER_STATUS_SUBMITTED \<and> o_order_id o1 = ''1'' \<and>
        o_status o2 = Some ORDER_STATUS_PARTIAL_FILLED \<and> o_order_id o2 = ''2'')
   \<and> (\<exists>order. o_status order = Some ORDER_STATUS_FILLED \<and>
        process example_lib fill_report (example_trade, example_world) =
          Return ()
            (example_trade\<lparr>self_orders := (self_orders example_trade)(''2'' := None)\<rparr>,
             SingleTask_run (Fn (Callable ''on_order_update'')) [AOrder order] example_world))
   \<and> process example_lib unknown_report (example_trade, example_world) =
       Return ()
         (example_trade,
          example_world
            \<lparr>tasks := [Task (Fn (Callable ''on_error'')) [AData (PStr ''order status error.'')]]\<rparr>)
   \<and> load_order_infos example_lib [unknown_row] (example_trade, example_world) =
       Return ()
         (example_trade,
          example_world
            \<lparr>tasks := [Task (Fn (Callable ''on_error'')) [AData (PStr ''order status error.'')]]\<rparr>)"
proof -
  note t = status_mapping_and_unknown_status
          [where L = example_lib and row = new_row and st = ORDER_STATUS_SUBMITTED
             and selfr = example_trade and wr = example_world
             and selfc = example_trade and u = "''SK/api/v3/openOrders''" and sk = "''AK''"
             and wc = snapshot_world and rows = "[new_row, partial_row, unknown_row]"
             and err = PNone
             and selfp = example_trade and report = fill_report
             and st' = ORDER_STATUS_FILLED and wp = example_world
             and msg = unknown_report and self = example_trade and i = "PInt 2"
             and x = "PStr ''PENDING_CANCEL''" and w = example_world
             and msgs = "[]" and order_info = unknown_row and x' = "PStr ''PENDING_CANCEL''"
             and self' = example_trade and w' = example_world and order_infos = "[]"]
  note row = t [THEN conjunct2, THEN conjunct2, THEN conjunct2, THEN conjunct1]
  note handshake =
    t [THEN conjunct2, THEN conjunct2, THEN conjunct2, THEN conjunct2, THEN conjunct1]
  note report =
    t [THEN conjunct2, THEN conjunct2, THEN conjunct2, THEN conjunct2, THEN conjunct2,
       THEN conjunct1]
  note stream =
    t [THEN conjunct2, THEN conjunct2, THEN conjunct2, THEN conjunct2, THEN conjunct2,
       THEN conjunct2, THEN conjunct1]
  note snapshot =
    t [THEN conjunct2, THEN conjunct2, THEN conjunct2, THEN conjunct2, THEN conjunct2,
       THEN conjunct2, THEN conjunct2]
  have cb: "self_order_update_callback example_trade = Callable ''on_order_update''"
    "self_error_callback example_trade = Callable ''on_error''"
    "self_init_callback example_trade = Callable ''on_init''"
    by (simp_all add: example_trade_def)
  have ids: "row_id new_row = ''1''" "row_id partial_row = ''2''" "event_id fill_report = ''2''"
    by (simp_all add: row_id_def event_id_def new_row_def partial_row_def fill_report_def
        get_def str_int_digits)
  have ns: "normalized_status (get new_row ''status'') = Some ORDER_STATUS_SUBMITTED"
    "normalized_status (get partial_row ''status'') = Some ORDER_STATUS_PARTIAL_FILLED"
    "normalized_status (get unknown_row ''status'') = None"
    "normalized_status (get fill_report ''X'') = Some ORDER_STATUS_FILLED"
    by (simp_all add: normalized_status_def status_vocabulary_def new_row_def partial_row_def
        unknown_row_def fill_report_def get_def)
  have sk: "\<not> skipped new_row" "\<not> skipped partial_row" "skipped unknown_row"
    using ns by (simp_all add: skipped_def snapshot_status_table)
  have rr: "row_remain example_lib new_row = Some 1" "row_remain example_lib partial_row = Some 3"
    by (simp_all add: row_remain_def new_row_def partial_row_def get_def example_lib_def)
  have wfr: "\<forall>r \<in> set [new_row, partial_row, unknown_row]. well_formed_row example_lib r"
    using sk rr
    by (simp add: well_formed_row_def) (simp add: new_row_def partial_row_def unknown_row_def)
  then have wf1: "well_formed_row example_lib new_row" by simp
  have wfp: "well_formed_report example_lib example_trade fill_report"
    by (simp add: well_formed_report_def fill_report_def get_def event_status_def
        stream_status_def event_remain_def example_lib_def example_trade_def)
  have ready: "open_orders_ready example_lib example_trade ''SK/api/v3/openOrders'' ''AK''"
    by (simp add: open_orders_ready_def example_lib_def example_trade_def)
  have reply: "replies snapshot_world (length (calls snapshot_world)) =
                 (JArray [new_row, partial_row, unknown_row], PNone)"
    "\<not> truthy PNone" "tasks snapshot_world = []"
    by (simp_all add: snapshot_world_def example_world_def)
  from row wf1 ns(1) have first:
    "\<exists>order. o_status order = Some ORDER_STATUS_SUBMITTED \<and> o_order_id order = ''1'' \<and>
      load_order_info example_lib new_row (example_trade, example_world) =
        Return ()
          (example_trade\<lparr>self_orders := (self_orders example_trade)(''1'' \<mapsto> order)\<rparr>,
           SingleTask_run (Fn (Callable ''on_order_update'')) [AOrder order] example_world)"
    unfolding ids cb by blast
  from handshake ready reply(1,2) wfr obtain om w1 where
    cc: "connected_callback example_lib (example_trade, snapshot_world) =
           Return () (example_trade\<lparr>self_orders := om\<rparr>, w1)"
    and tk: "tasks w1 =
               tasks snapshot_world @
               concat (map (row_tasks example_lib example_trade)
                         [new_row, partial_row, unknown_row]) @
               [Task (Fn (self_init_callback example_trade)) [AData (PBool True), AData PNone]]"
    and each: "\<forall>r \<in> set [new_row, partial_row, unknown_row].
                case normalized_status (get r ''status'') of
                  None \<Rightarrow>
                    row_tasks example_lib example_trade r =
                      [Task (Fn (self_error_callback example_trade))
                         [AData (PStr ''order status error.'')]]
                | Some s \<Rightarrow>
                    \<exists>order. row_tasks example_lib example_trade r =
                              [Task (Fn (self_order_update_callback example_trade))
                                 [AOrder order]] \<and>
                            o_status order = Some s \<and> o_order_id order = row_id r"
    by blast
  from each ns(1) obtain o1 where
    o1: "row_tasks example_lib example_trade new_row =
           [Task (Fn (self_order_update_callback example_trade)) [AOrder o1]]"
        "o_status o1 = Some ORDER_STATUS_SUBMITTED" "o_order_id o1 = row_id new_row"
    by auto
  from each ns(2) obtain o2 where
    o2: "row_tasks example_lib example_trade partial_row =
           [Task (Fn (self_order_update_callback example_trade)) [AOrder o2]]"
        "o_status o2 = Some ORDER_STATUS_PARTIAL_FILLED" "o_order_id o2 = row_id partial_row"
    by auto
  from each ns(3) have
    o3: "row_tasks example_lib example_trade unknown_row =
           [Task (Fn (self_error_callback example_trade))
              [AData (PStr ''order status error.'')]]"
    by auto
  have "tasks w1 =
          [Task (Fn (Callable ''on_order_update'')) [AOrder o1],
           Task (Fn (Callable ''on_order_update'')) [AOrder o2],
           Task (Fn (Callable ''on_error'')) [AData (PStr ''order status error.'')],
           Task (Fn (Callable ''on_init'')) [AData (PBool True), AData PNone]]"
    by (simp add: tk reply(3) o1(1) o2(1) o3 cb)
  with cc o1(2,3) o2(2,3) have second:
    "\<exists>om w1 o1 o2.
        connected_callback example_lib (example_trade, snapshot_world) =
          Return () (example_trade\<lparr>self_orders := om\<rparr>, w1) \<and>
        tasks w1 =
          [Task (Fn (Callable ''on_order_update'')) [AOrder o1],
           Task (Fn (Callable ''on_order_update'')) [AOrder o2],
           Task (Fn (Callable ''on_error'')) [AData (PStr ''order status error.'')],
           Task (Fn (Callable ''on_init'')) [AData (PBool True), AData PNone]] \<and>
        o_status o1 = Some ORDER_STATUS_SUBMITTED \<and> o_order_id o1 = ''1'' \<and>
        o_status o2 = Some ORDER_STATUS_PARTIAL_FILLED \<and> o_order_id o2 = ''2''"
    unfolding ids by blast
  have tm: "terminal ORDER_STATUS_FILLED" by (simp add: terminal_def)
  from report wfp ns(4) have third:
    "\<exists>order. o_status order = Some ORDER_STATUS_FILLED \<and>
        process example_lib fill_report (example_trade, example_world) =
          Return ()
            (example_trade\<lparr>self_orders := (self_orders example_trade)(''2'' := None)\<rparr>,
             SingleTask_run (Fn (Callable ''on_order_update'')) [AOrder order] example_world)"
    unfolding ids cb using tm by simp
  have fourth: "process example_lib unknown_report (example_trade, example_world) =
       Return ()
         (example_trade,
          example_world
            \<lparr>tasks := [Task (Fn (Callable ''on_error'')) [AData (PStr ''order status error.'')]]\<rparr>)"
    using stream
    by (simp add: unknown_report_def get_def example_trade_def example_world_def
        normalized_status_def status_vocabulary_def SingleTask_run_def)
  have fifth: "load_order_infos example_lib [unknown_row] (example_trade, example_world) =
       Return ()
         (example_trade,
          example_world
            \<lparr>tasks := [Task (Fn (Callable ''on_error'')) [AData (PStr ''order status error.'')]]\<rparr>)"
    using snapshot
    by (simp add: unknown_row_def example_trade_def example_world_def
        normalized_status_def status_vocabulary_def SingleTask_run_def)
  from first second third fourth fifth show ?thesis by (intro conjI)
qed

end
